theory Spec2Isabelle
  imports Main "HOL-Library.Word"
begin

section \<open>JavaScript values, strings and effects\<close>

text \<open>
  The components are Vue single-file components written in TypeScript. A component is
  modelled as a record of its refs and props; a handler is a function from the state to
  the state. Everything a handler does to the outside (a request to the backend, a
  popup, an emitted event, a call of an injected or imported function) is appended to
  the \<open>effects\<close> log of the state, in the order the source performs it. The answer
  the backend gives to a request is an argument of the handler; where the request
  depends on the state, the argument is the endpoint, a function from what is sent to
  the answer. A handler runs to its end before the next one starts, and what a parent
  component does with an emitted event is outside the model.

  A JavaScript string is the list of its UTF-16 code units, \<open>jsstring\<close>, and \<open>length\<close> is
  the source's \<open>.length\<close>. What is typed into the category forms, and every string inside
  a \<open>jsvalue\<close>, is a \<open>jsstring\<close>. The strings of the program text (keys, paths, names of
  events, keys of translations) and the other strings of the model are written as
  Isabelle strings, whose code units are below 256; \<open>utf16\<close> gives their code units.
\<close>

type_synonym jsstring = "16 word list"

definition utf16 :: "string \<Rightarrow> jsstring" where
  "utf16 s = map of_char s"

datatype jsvalue =
    JUndefined
  | JNull
  | JBool bool
  | JString jsstring
  | JArray "jsvalue list"
  | JObject "(string \<times> jsvalue) list"

text \<open>\<open>i18n.global.t(key)\<close> is kept as the key (the translation tables are static data);
  \<open>Raw\<close> is a string that is not translated, \<open>Raw None\<close> when it is \<open>undefined\<close>.\<close>

datatype message =
    T string
  | TWith string "(string \<times> string) list"
  | Raw "string option"

datatype popupType = PopupSuccess | PopupError

datatype httpMethod = GET | POST | PUT | DELETE

datatype effect =
    DisplayPopup popupType message message
  | Request httpMethod string "(string \<times> jsvalue) list"
  | Emit string "jsvalue list"
  | Call string "jsvalue list"

text \<open>\<open>interface FetchDataResult { success: boolean; data?: any; error?: string }\<close>\<close>

record 'a FetchDataResult =
  success :: bool
  data :: "'a option"
  error :: "string option"

text \<open>What every component here has: the log of its effects, and whether an ancestor
  provided \<open>displayPopup\<close> (the source calls it as \<open>displayPopup?.(...)\<close>).\<close>

record component =
  displayPopup :: bool
  effects :: "effect list"

definition perform :: "effect \<Rightarrow> 'a component_scheme \<Rightarrow> 'a component_scheme" where
  "perform e s = s\<lparr>effects := effects s @ [e]\<rparr>"

definition popup :: "popupType \<Rightarrow> message \<Rightarrow> message \<Rightarrow> 'a component_scheme \<Rightarrow> 'a component_scheme" where
  "popup ty title message s =
     (if displayPopup s then perform (DisplayPopup ty title message) s else s)"

text \<open>\<open>xs[0]\<close>: \<open>undefined\<close> on an empty array.\<close>

definition index0 :: "'a list \<Rightarrow> 'a option" where
  "index0 xs = (case xs of [] \<Rightarrow> None | x # _ \<Rightarrow> Some x)"

text \<open>\<open>String.prototype.startsWith\<close> and \<open>String.prototype.includes\<close>.\<close>

fun startsWith :: "string \<Rightarrow> string \<Rightarrow> bool" where
  "startsWith s [] = True"
| "startsWith [] (c # cs) = False"
| "startsWith (x # xs) (c # cs) = (x = c \<and> startsWith xs cs)"

fun str_includes :: "string \<Rightarrow> string \<Rightarrow> bool" where
  "str_includes [] t = (t = [])"
| "str_includes (x # xs) t = (startsWith (x # xs) t \<or> str_includes xs t)"

text \<open>\<open>Array.prototype.join\<close> on strings.\<close>

fun join :: "string \<Rightarrow> string list \<Rightarrow> string" where
  "join sep [] = []"
| "join sep [x] = x"
| "join sep (x # y # ys) = x @ sep @ join sep (y # ys)"


section \<open>Prompt customization: the LLM settings and the prompt templates\<close>

record Prompt =
  prompt :: string
  variables :: "string list"

record LLMModel =
  model_name :: string
  model_description :: string

record LLMProvider =
  provider :: string
  headquarters :: string
  apiReference :: string
  provider_description :: string
  models :: "LLMModel list"

definition google :: LLMProvider where
  "google =
     \<lparr>provider = ''google'',
      headquarters = ''Mountain View, CA, USA'',
      apiReference = ''https://ai.google.dev/gemini-api/docs/models/gemini'',
      provider_description = ''Google's AI model provider'',
      models = [
        \<lparr>model_name = ''gemini-1.5-pro'',
         model_description = ''Most capable model for highly complex tasks, with improved performance in coding, math, and reasoning. Supports text, images, and function calling.''\<rparr>,
        \<lparr>model_name = ''gemini-2.0-flash'',
         model_description = ''Latest model optimized for speed and efficiency. Best for real-time applications requiring fast responses while maintaining high quality output.''\<rparr>]\<rparr>"

definition openai :: LLMProvider where
  "openai =
     \<lparr>provider = ''openai'',
      headquarters = ''San Francisco, CA, USA'',
      apiReference = ''https://platform.openai.com/docs/models#gpt-4o'',
      provider_description = ''OpenAI's AI model provider'',
      models = [
        \<lparr>model_name = ''gpt-4o-mini'',
         model_description = ''Most capable multimodal model, optimized for both vision and language tasks. Excels at complex reasoning and creative generation.''\<rparr>]\<rparr>"

definition anthropic :: LLMProvider where
  "anthropic =
     \<lparr>provider = ''anthropic'',
      headquarters = ''San Francisco, CA, USA'',
      apiReference = ''https://docs.anthropic.com/en/docs/about-claude/models/all-models'',
      provider_description = ''Anthropic's AI model provider'',
      models = [
        \<lparr>model_name = ''claude-3-5-haiku-latest'',
         model_description = ''Fastest and most cost-effective Claude model. Optimized for quick responses while maintaining high accuracy on common tasks.''\<rparr>]\<rparr>"

definition mistral :: LLMProvider where
  "mistral =
     \<lparr>provider = ''mistral'',
      headquarters = ''Paris, France'',
      apiReference = ''https://docs.mistral.ai/getting-started/models/models_overview/'',
      provider_description = ''Mistral's AI model provider'',
      models = [
        \<lparr>model_name = ''ministral-8b-latest'',
         model_description = ''Efficient 8B parameter model optimized for edge deployment. Excellent performance-to-size ratio for local inference.''\<rparr>,
        \<lparr>model_name = ''mistral-small-latest'',
         model_description = ''Compact but powerful model with strong reasoning capabilities. Ideal for production deployments requiring balance of speed and quality.''\<rparr>]\<rparr>"

definition groq :: LLMProvider where
  "groq =
     \<lparr>provider = ''groq'',
      headquarters = ''Mountain View, CA, USA'',
      apiReference = ''https://console.groq.com/docs/api-reference'',
      provider_description = ''Groq's AI model provider'',
      models = [
        \<lparr>model_name = ''llama3-8b-8192'',
         model_description = ''Most capable model from Meta AI''\<rparr>]\<rparr>"

definition deepseek :: LLMProvider where
  "deepseek =
     \<lparr>provider = ''deepseek'',
      headquarters = ''Hangzhou, Zhejiang, China'',
      apiReference = ''https://deepseek.com/docs/api-reference'',
      provider_description = ''DeepSeek's AI model provider'',
      models = [
        \<lparr>model_name = ''deepseek-chat'',
         model_description = ''Default model for general purpose tasks''\<rparr>]\<rparr>"

text \<open>The catalog \<open>llmProviderOptions\<close>, its entries in the order of the source.\<close>

definition llmProviderOptions :: "LLMProvider list" where
  "llmProviderOptions = [google, openai, anthropic, mistral, groq, deepseek]"

text \<open>The refs of the component. \<open>llmModel\<close> is \<open>None\<close> when the ref holds
  \<open>undefined\<close> (the value of \<open>models[0]\<close> for an empty list); \<open>llmProvider\<close> is \<open>None\<close>
  when the ref holds \<open>null\<close>, which the provider select stores when its selected option
  is clicked.\<close>

record PromptCustomization = component +
  llmModel :: "LLMModel option"
  llmProvider :: "LLMProvider option"
  promptInput :: string
  editingPrompt :: "string option"
  customizablePrompts :: "string \<rightharpoonup> Prompt"

text \<open>The body of \<open>GET user/preferences/llm_settings/\<close>: the two selection keys (absent, or
  not a string, is \<open>None\<close>) and, under every other key, a prompt.\<close>

record LLMSettingsData =
  data_llmProvider :: "string option"
  data_llmModel :: "string option"
  data_prompts :: "string \<rightharpoonup> Prompt"

definition llm_settings :: string where
  "llm_settings = ''user/preferences/llm_settings/''"

definition initialPromptCustomization :: "bool \<Rightarrow> PromptCustomization" where
  "initialPromptCustomization dp =
     \<lparr>displayPopup = dp, effects = [],
      llmModel = index0 (models (llmProviderOptions ! 0)),
      llmProvider = Some (llmProviderOptions ! 0),
      promptInput = [],
      editingPrompt = None,
      customizablePrompts = Map.empty\<rparr>"

text \<open>\<open>changeProvider\<close>. Reading \<open>llmProvider.value.models\<close> throws when the ref holds
  \<open>null\<close>.\<close>

definition changeProvider :: "PromptCustomization \<Rightarrow> PromptCustomization" where
  "changeProvider s =
     (case llmProvider s of
        None \<Rightarrow> s
      | Some p \<Rightarrow> s\<lparr>llmModel := index0 (models p)\<rparr>)"

text \<open>
  The provider select is the \<open>multiselect\<close> component (\<open>vue-multiselect\<close>, a dependency that
  is not under \<open>src/\<close>) over the options \<open>llmProviderOptions\<close>, with
  \<open>v-model="llmProvider"\<close>, \<open>track-by="provider"\<close> and \<open>@select="changeProvider"\<close>; its
  \<open>allow-empty\<close> is left at the default. Choosing an option that is not the selected one
  stores it in \<open>llmProvider\<close> and emits \<open>select\<close>, which runs the handler: \<open>selectProvider\<close>.
  A click on the option that is selected (the one with the selected provider's name)
  stores \<open>null\<close> and emits no \<open>select\<close>, so the handler does not run: \<open>clickProvider\<close> is a
  click on any option.
\<close>

definition selectProvider :: "LLMProvider \<Rightarrow> PromptCustomization \<Rightarrow> PromptCustomization" where
  "selectProvider p s = changeProvider (s\<lparr>llmProvider := Some p\<rparr>)"

definition clickProvider :: "LLMProvider \<Rightarrow> PromptCustomization \<Rightarrow> PromptCustomization" where
  "clickProvider p s =
     (if map_option provider (llmProvider s) = Some (provider p)
      then s\<lparr>llmProvider := None\<rparr>
      else selectProvider p s)"

text \<open>The computed \<open>llmModelOptions\<close>; \<open>None\<close> when computing it throws, which reading
  \<open>llmProvider.value.provider\<close> does when the ref holds \<open>null\<close>.\<close>

definition llmModelOptions :: "PromptCustomization \<Rightarrow> LLMModel list option" where
  "llmModelOptions s =
     (case llmProvider s of
        None \<Rightarrow> None
      | Some q \<Rightarrow>
         Some (case find (\<lambda>p. provider p = provider q) llmProviderOptions of
                 Some p \<Rightarrow> models p
               | None \<Rightarrow> []))"

text \<open>\<open>fetchLLMSettings\<close>. With \<open>success\<close> and no \<open>data\<close>, reading \<open>data.llmProvider\<close>
  throws before anything is assigned. The provider is assigned before \<open>llmModelOptions\<close> is
  read.\<close>

definition fetchLLMSettings ::
  "LLMSettingsData FetchDataResult \<Rightarrow> PromptCustomization \<Rightarrow> PromptCustomization" where
  "fetchLLMSettings result s0 =
     (let s = perform (Request GET llm_settings []) s0 in
      if \<not> success result then
        popup PopupError (Raw (Some ''Failed to fetch LLM settings'')) (Raw (error result)) s
      else
        (case data result of
           None \<Rightarrow> s
         | Some d \<Rightarrow>
            (let s1 = s\<lparr>llmProvider :=
                        Some (case find (\<lambda>p. Some (provider p) = data_llmProvider d) llmProviderOptions of
                                Some p \<Rightarrow> p
                              | None \<Rightarrow> llmProviderOptions ! 0)\<rparr>
             in case llmModelOptions s1 of
                  None \<Rightarrow> s1
                | Some options \<Rightarrow>
                   s1\<lparr>llmModel :=
                        (case find (\<lambda>m. Some (model_name m) = data_llmModel d) options of
                           Some m \<Rightarrow> Some m
                         | None \<Rightarrow> index0 options),
                      customizablePrompts := data_prompts d\<rparr>)))"

text \<open>\<open>resetToDefault\<close>: the four assignments before the first \<open>await\<close>, then the request
  and what follows its answer.\<close>

definition resetSelection :: "PromptCustomization \<Rightarrow> PromptCustomization" where
  "resetSelection s =
     s\<lparr>llmModel := index0 (models (llmProviderOptions ! 0)),
       llmProvider := Some (llmProviderOptions ! 0),
       promptInput := [],
       editingPrompt := None\<rparr>"

definition resetToDefault ::
  "unit FetchDataResult \<Rightarrow> LLMSettingsData FetchDataResult \<Rightarrow>
   PromptCustomization \<Rightarrow> PromptCustomization" where
  "resetToDefault result fetched s0 =
     (let s = perform (Request DELETE llm_settings [(''resetAll'', JBool True)]) (resetSelection s0) in
      if \<not> success result then
        popup PopupError (T ''constants.popUpConstants.errorMessages.resetError'') (Raw (error result)) s
      else
        fetchLLMSettings fetched
          (popup PopupSuccess (T ''constants.popUpConstants.successMessages.resetSuccess'')
             (T ''constants.popUpConstants.successMessages.resetSuccessDesc'') s))"

text \<open>
  Modelled from the spec: the backend behind \<open>user/preferences/llm_settings/\<close> is not
  under \<open>src/\<close>. It stores the user's provider and model selection and the user's
  prompts. The spec's \<open>resetAll\<close> resets every prompt to its default (the system's
  defaults are a parameter) and "also clears the active LLM provider/model selection back
  to the system default", which is the first provider of the catalog and its first model.
  \<open>GET\<close> answers with what is stored.
\<close>

record LLMSettingsStore =
  stored_llmProvider :: string
  stored_llmModel :: string
  stored_prompts :: "string \<rightharpoonup> Prompt"

definition store_resetAll :: "(string \<rightharpoonup> Prompt) \<Rightarrow> LLMSettingsStore \<Rightarrow> LLMSettingsStore" where
  "store_resetAll defaults st =
     \<lparr>stored_llmProvider = provider (llmProviderOptions ! 0),
      stored_llmModel = model_name (hd (models (llmProviderOptions ! 0))),
      stored_prompts = defaults\<rparr>"

definition store_get :: "LLMSettingsStore \<Rightarrow> LLMSettingsData" where
  "store_get st =
     \<lparr>data_llmProvider = Some (stored_llmProvider st),
      data_llmModel = Some (stored_llmModel st),
      data_prompts = stored_prompts st\<rparr>"

text \<open>\<open>saveLLMSettings\<close>. Building the request body reads \<open>llmProvider.value.provider\<close> and
  \<open>llmModel.value.name\<close>, which throw when the ref holds \<open>null\<close> or \<open>undefined\<close>.\<close>

definition saveLLMSettings ::
  "unit FetchDataResult \<Rightarrow> LLMSettingsData FetchDataResult \<Rightarrow>
   PromptCustomization \<Rightarrow> PromptCustomization" where
  "saveLLMSettings result fetched s0 =
     (case llmProvider s0 of
        None \<Rightarrow> s0
      | Some p \<Rightarrow>
         (case llmModel s0 of
            None \<Rightarrow> s0
          | Some m \<Rightarrow>
             (let s = perform (Request PUT llm_settings
                        [(''llmProvider'', JString (utf16 (provider p))),
                         (''llmModel'', JString (utf16 (model_name m)))]) s0 in
              if \<not> success result then
                popup PopupError (T ''constants.popUpConstants.errorMessages.saveLLMSettingsError'')
                  (Raw (error result)) s
              else
                fetchLLMSettings fetched
                  (popup PopupSuccess
                     (T ''constants.popUpConstants.successMessages.saveLLMSettingsSuccess'')
                     (T ''constants.popUpConstants.successMessages.saveLLMSettingsSuccessDesc'') s))))"

text \<open>\<open>!editingPrompt.value\<close>: \<open>null\<close> and the empty string are falsy.\<close>

definition noPrompt :: "string option \<Rightarrow> bool" where
  "noPrompt e = (case e of None \<Rightarrow> True | Some k \<Rightarrow> k = [])"

text \<open>The variables of a prompt that the text does not hold as \<open>{variable}\<close>:
  \<open>variables.filter((variable) => !promptInput.value.includes(`{${variable}}`))\<close>.\<close>

definition missingVariables :: "Prompt \<Rightarrow> string \<Rightarrow> string list" where
  "missingVariables promptData input =
     filter (\<lambda>variable. \<not> str_includes input (''{'' @ variable @ ''}'')) (variables promptData)"

text \<open>\<open>savePrompt\<close>. When \<open>customizablePrompts\<close> has no entry under the edited key,
  \<open>promptData.variables\<close> throws and nothing more happens.\<close>

definition savePrompt :: "unit FetchDataResult \<Rightarrow> PromptCustomization \<Rightarrow> PromptCustomization" where
  "savePrompt result s =
     (if noPrompt (editingPrompt s) then
        popup PopupError (T ''constants.popUpConstants.errorMessages.noPromptSelected'')
          (T ''constants.popUpConstants.errorMessages.noPromptSelectedDesc'') s
      else
        (case customizablePrompts s (the (editingPrompt s)) of
           None \<Rightarrow> s
         | Some promptData \<Rightarrow>
            (let missing = missingVariables promptData (promptInput s) in
             if length missing > 0 then
               popup PopupError (T ''constants.popUpConstants.errorMessages.missingVariables'')
                 (TWith ''constants.popUpConstants.errorMessages.missingVariablesDesc''
                    [(''variables'', join '', '' missing)]) s
             else
               (let s1 = perform (Request PUT llm_settings
                           [(the (editingPrompt s), JString (utf16 (promptInput s)))]) s in
                if \<not> success result then
                  popup PopupError (T ''constants.popUpConstants.errorMessages.savePromptError'')
                    (Raw (error result)) s1
                else
                  popup PopupSuccess (T ''constants.popUpConstants.successMessages.promptSaved'')
                    (T ''constants.popUpConstants.successMessages.promptSavedDesc'') s1))))"

text \<open>What a handler adds to the log of effects.\<close>

definition emitted ::
  "('a component_scheme \<Rightarrow> 'b component_scheme) \<Rightarrow> 'a component_scheme \<Rightarrow> effect list" where
  "emitted f s = drop (length (effects s)) (effects (f s))"

text \<open>The selection is consistent: the provider is an entry of the catalog and the model
  is one of that provider's models.\<close>

definition providerInCatalog :: "PromptCustomization \<Rightarrow> bool" where
  "providerInCatalog s = (\<exists>p \<in> set llmProviderOptions. llmProvider s = Some p)"

definition modelOfProvider :: "PromptCustomization \<Rightarrow> bool" where
  "modelOfProvider s =
     (case llmProvider s of
        None \<Rightarrow> False
      | Some p \<Rightarrow> \<exists>m \<in> set (models p). llmModel s = Some m)"


section \<open>Account settings: linking a mailbox\<close>

text \<open>\<open>Plan\<close> is imported from \<open>../utils/types\<close>; \<open>authorize\<close> reads its two flags.\<close>

record Plan =
  isTrial :: bool
  isActive :: bool

record EmailLinked =
  linked_email :: string
  linked_typeApi :: string

definition MICROSOFT :: string where "MICROSOFT = ''microsoft''"
definition GOOGLE :: string where "GOOGLE = ''google''"
definition YAHOO :: string where "YAHOO = ''yahoo''"
definition APPLE :: string where "APPLE = ''apple''"

text \<open>\<open>userPlan\<close> is \<open>None\<close> when nothing was injected or the ref holds no plan
  (\<open>userPlan?.value\<close> is falsy); \<open>openAddUserDescriptionModal\<close> says whether that function
  was injected; \<open>emailsLinked\<close> is \<open>None\<close> when the ref holds \<open>undefined\<close>.\<close>

record AccountSettings = component +
  typeApi :: string
  userPlan :: "Plan option"
  openAddUserDescriptionModal :: bool
  emailsLinked :: "EmailLinked list option"
  sessionStorage :: "string \<rightharpoonup> string"

definition authorize :: "string \<Rightarrow> AccountSettings \<Rightarrow> AccountSettings" where
  "authorize provider' s =
     (if (case userPlan s of Some plan \<Rightarrow> isTrial plan | None \<Rightarrow> False) then
        popup PopupError (T ''settingsPage.accountPage.failedToGenerateAuthURL'')
          (T ''settingsPage.accountPage.singleEmailTrialLinkLimit'') s
      else if (case userPlan s of Some plan \<Rightarrow> \<not> isActive plan | None \<Rightarrow> False) then
        popup PopupError (T ''settingsPage.accountPage.failedToGenerateAuthURL'')
          (T ''settingsPage.accountPage.inactiveSubscriptionLinkError'') s
      else
        (let s1 = s\<lparr>typeApi := provider'\<rparr> in
         if (provider' = MICROSOFT \<or> provider' = GOOGLE) \<and> openAddUserDescriptionModal s1
         then perform (Call ''openAddUserDescriptionModal'' []) s1
         else s1))"

definition getItem :: "(string \<rightharpoonup> string) \<Rightarrow> string \<Rightarrow> jsvalue" where
  "getItem storage key = (case storage key of Some v \<Rightarrow> JString (utf16 v) | None \<Rightarrow> JNull)"

text \<open>\<open>fetchEmailLinked\<close>: the result of \<open>getData\<close> is an object, so \<open>!result\<close> is false.\<close>

definition fetchEmailLinked ::
  "EmailLinked list FetchDataResult \<Rightarrow> AccountSettings \<Rightarrow> AccountSettings" where
  "fetchEmailLinked result s =
     (perform (Request GET ''user/emails_linked/'' []) s)\<lparr>emailsLinked := data result\<rparr>"

definition linkEmail ::
  "unit FetchDataResult \<Rightarrow> EmailLinked list FetchDataResult \<Rightarrow> string \<Rightarrow> bool \<Rightarrow>
   AccountSettings \<Rightarrow> AccountSettings" where
  "linkEmail result fetched authorizationCode regrantConsent s0 =
     (let s = perform (Request POST ''user/social_api/link/''
                [(''code'', JString (utf16 authorizationCode)),
                 (''typeApi'', getItem (sessionStorage s0) ''typeApi''),
                 (''userDescription'', getItem (sessionStorage s0) ''userDescription'')]) s0;
          s1 = (if \<not> success result then
                  popup PopupError (T ''settingsPage.accountPage.emailLinkingFailure'')
                    (Raw (error result)) s
                else if regrantConsent then
                  popup PopupSuccess (T ''constants.popUpConstants.successMessages.success'')
                    (T ''settingsPage.accountPage.connectionReestablishedSuccess'')
                    (fetchEmailLinked fetched s)
                else
                  popup PopupSuccess (T ''constants.popUpConstants.successMessages.success'')
                    (T ''settingsPage.accountPage.emailLinkedSuccess'')
                    (fetchEmailLinked fetched s))
      in perform (Call ''window.history.replaceState'' []) (s1\<lparr>sessionStorage := Map.empty\<rparr>))"

text \<open>\<open>checkAuthorizationCode\<close>: \<open>code\<close> is the \<open>code\<close> parameter of the page's URL.\<close>

definition checkAuthorizationCode ::
  "unit FetchDataResult \<Rightarrow> EmailLinked list FetchDataResult \<Rightarrow> string option \<Rightarrow>
   AccountSettings \<Rightarrow> AccountSettings" where
  "checkAuthorizationCode result fetched code s =
     (case code of
        None \<Rightarrow> s
      | Some authorizationCode \<Rightarrow>
         if authorizationCode = [] then s
         else if sessionStorage s ''regrantConsent'' = Some ''true''
         then linkEmail result fetched authorizationCode True s
         else linkEmail result fetched authorizationCode False s)"

text \<open>
  Modelled from the spec: the backend behind \<open>POST user/social_api/link/\<close> and its list of
  linked mailboxes are not under \<open>src/\<close>. The spec's Account Link Manager has
  \<open>exchangeCode(code, providerType, consentRegrant) -> LinkedMailbox | Error\<close>: creation
  requires a successful exchange of the authorization code; a provider failure is
  surfaced with the provider's raw message; re-authorizing an already-linked mailbox with
  \<open>consentRegrant\<close> updates its token state rather than creating a duplicate; the pair
  (email, providerType) is unique per user, so without \<open>consentRegrant\<close> an already-linked
  mailbox is refused. \<open>oauth\<close> is the provider's exchange: the raw error message, or the
  mailbox's address and its token.
\<close>

record LinkedMailbox =
  mailbox_email :: string
  providerType :: string
  tokenState :: string

datatype linkError = ProviderError string | AlreadyLinked

definition mailboxKey :: "LinkedMailbox \<Rightarrow> string \<times> string" where
  "mailboxKey m = (mailbox_email m, providerType m)"

definition exchangeCode ::
  "(string \<Rightarrow> string \<Rightarrow> string + string \<times> string) \<Rightarrow> string \<Rightarrow> string \<Rightarrow> bool \<Rightarrow>
   LinkedMailbox list \<Rightarrow> (linkError + LinkedMailbox) \<times> LinkedMailbox list" where
  "exchangeCode oauth code pt consentRegrant mailboxes =
     (case oauth code pt of
        Inl raw \<Rightarrow> (Inl (ProviderError raw), mailboxes)
      | Inr (address, token) \<Rightarrow>
         (let mailbox = \<lparr>mailbox_email = address, providerType = pt, tokenState = token\<rparr> in
          if (address, pt) \<in> set (map mailboxKey mailboxes) then
            (if consentRegrant then
               (Inr mailbox,
                map (\<lambda>m. if mailboxKey m = (address, pt) then mailbox else m) mailboxes)
             else (Inl AlreadyLinked, mailboxes))
          else (Inr mailbox, mailboxes @ [mailbox])))"

text \<open>Modelled from the spec: what \<open>GET user/emails_linked/\<close> lists for the mailboxes, and
  the answer of the link request for a result of \<open>exchangeCode\<close>.\<close>

definition emailsLinkedOf :: "LinkedMailbox list \<Rightarrow> EmailLinked list" where
  "emailsLinkedOf mailboxes =
     map (\<lambda>m. \<lparr>linked_email = mailbox_email m, linked_typeApi = providerType m\<rparr>) mailboxes"

definition linkResult :: "linkError + LinkedMailbox \<Rightarrow> unit FetchDataResult" where
  "linkResult r =
     (case r of
        Inl (ProviderError raw) \<Rightarrow> \<lparr>success = False, data = None, error = Some raw\<rparr>
      | Inl AlreadyLinked \<Rightarrow> \<lparr>success = False, data = None, error = None\<rparr>
      | Inr m \<Rightarrow> \<lparr>success = True, data = Some (), error = None\<rparr>)"


section \<open>Categories: the tabs, the creation modal and the update modal\<close>

record Category =
  category_name :: jsstring
  category_description :: jsstring

definition categoryValue :: "jsstring \<Rightarrow> jsstring \<Rightarrow> jsvalue" where
  "categoryValue n d = JObject [(''name'', JString n), (''description'', JString d)]"

text \<open>
  The tabs (\<open>Categories.vue\<close>). \<open>DEFAULT_CATEGORY\<close> is imported from \<open>@/global/const\<close> and is
  a parameter here. For a category whose name is not \<open>DEFAULT_CATEGORY\<close> the template
  renders the tab, which selects it, and the pencil, which opens the update modal; for
  the default one (\<open>v-else\<close>) it renders two elements that both select it. After the tabs
  comes the button that opens the creation modal.
\<close>

datatype click = SelectCategory Category | OpenUpdateModal Category | OpenNewCategoryModal

definition tabClicks :: "jsstring \<Rightarrow> Category \<Rightarrow> click list" where
  "tabClicks DEFAULT_CATEGORY c =
     (if category_name c \<noteq> DEFAULT_CATEGORY then [SelectCategory c, OpenUpdateModal c]
      else [SelectCategory c, SelectCategory c])"

definition clicks :: "jsstring \<Rightarrow> Category list \<Rightarrow> click list" where
  "clicks DEFAULT_CATEGORY cs = concat (map (tabClicks DEFAULT_CATEGORY) cs) @ [OpenNewCategoryModal]"

text \<open>The handlers \<open>selectCategory\<close>, \<open>openUpdateModal\<close> and \<open>openNewCategoryModal\<close>: what a
  click emits.\<close>

definition clickEmits :: "click \<Rightarrow> effect" where
  "clickEmits k =
     (case k of
        SelectCategory c \<Rightarrow>
          Emit ''select-category'' [categoryValue (category_name c) (category_description c)]
      | OpenUpdateModal c \<Rightarrow>
          Emit ''open-update-category-modal'' [categoryValue (category_name c) (category_description c)]
      | OpenNewCategoryModal \<Rightarrow> Emit ''open-new-category-modal'' [])"

text \<open>\<open>String.prototype.trim\<close> removes the white space and the line terminators of
  ECMAScript from both ends: TAB, LF, VT, FF, CR, the space, the no-break space, U+1680,
  U+2000 to U+200A, U+2028, U+2029, U+202F, U+205F, U+3000 and U+FEFF. Each is one code
  unit.\<close>

definition isWhiteSpace :: "16 word \<Rightarrow> bool" where
  "isWhiteSpace c =
     (c \<in> set [0x0009, 0x000A, 0x000B, 0x000C, 0x000D, 0x0020, 0x00A0, 0x1680,
                0x2000, 0x2001, 0x2002, 0x2003, 0x2004, 0x2005, 0x2006, 0x2007, 0x2008,
                0x2009, 0x200A, 0x2028, 0x2029, 0x202F, 0x205F, 0x3000, 0xFEFF])"

definition trim :: "jsstring \<Rightarrow> jsstring" where
  "trim s = rev (dropWhile isWhiteSpace (rev (dropWhile isWhiteSpace s)))"

text \<open>What the two modals share: the prop \<open>isOpen\<close>, the injected refs and the form.\<close>

record categoryForm = component +
  isOpen :: bool
  categories :: "Category list"
  selectedCategory :: jsstring
  categoryName :: jsstring
  categoryDescription :: jsstring
  errorMessage :: message

subsection \<open>The creation modal (\<open>NewCategoryModal.vue\<close>)\<close>

definition resetForm_new :: "categoryForm \<Rightarrow> categoryForm" where
  "resetForm_new s = s\<lparr>categoryName := [], categoryDescription := [], errorMessage := Raw (Some [])\<rparr>"

definition closeModal_new :: "categoryForm \<Rightarrow> categoryForm" where
  "closeModal_new s = resetForm_new (perform (Emit ''close'' []) s)"

definition addCategory :: "(jsstring \<Rightarrow> jsstring \<Rightarrow> unit FetchDataResult) \<Rightarrow> categoryForm \<Rightarrow> categoryForm" where
  "addCategory create_categories s =
     (if \<not> isOpen s then s
      else if trim (categoryName s) = [] \<or> trim (categoryDescription s) = [] then
        s\<lparr>errorMessage := T ''homePage.modals.pleaseFillAllFields''\<rparr>
      else if length (categoryName s) > 50 then
        s\<lparr>errorMessage := T ''homePage.modals.newCategoryModal.maxNameCharacters''\<rparr>
      else if length (categoryDescription s) > 300 then
        s\<lparr>errorMessage := T ''homePage.modals.newCategoryModal.maxDescriptionCharacters''\<rparr>
      else
        (let n = categoryName s; d = categoryDescription s;
             result = create_categories n d;
             s1 = perform (Request POST ''create_categories/''
                    [(''categories'', JArray [categoryValue n d])]) s in
         if success result then
           (let s2 = (perform (Emit ''selectCategory'' [categoryValue n d]) s1)
                       \<lparr>selectedCategory := n,
                        categories := categories s1 @ [\<lparr>category_name = n, category_description = d\<rparr>]\<rparr>;
                s3 = perform (Call ''createDefaultFilters'' [JString n]) s2;
                s4 = perform (Call ''fetchCategoriesAndTotals'' []) s3;
                s5 = perform (Call ''fetchFiltersData'' [JString n]) s4;
                s6 = perform (Call ''fetchEmailsData'' [JString n]) s5
            in popup PopupSuccess (T ''constants.popUpConstants.successMessages.success'')
                 (T ''constants.popUpConstants.successMessages.categoryAddedSuccess'')
                 (closeModal_new s6))
         else
           popup PopupError (T ''constants.popUpConstants.errorMessages.addCategoryError'')
             (Raw (error result)) (closeModal_new s1)))"

subsection \<open>The update modal\<close>

text \<open>\<open>category\<close> is the prop \<open>category: Category | null\<close>. The watcher on it copies its name
  and description into the form; the inputs are bound to the form with \<open>v-model\<close>.\<close>

record UpdateCategoryModal = categoryForm +
  category :: "Category option"
  isCategoryDeletionModalOpen :: bool
  nbRulesLinked :: nat
  nbEmailsLinked :: nat

record Dependencies =
  nbRules :: nat
  nbEmails :: nat

text \<open>\<open>props.category?.name\<close>, as a value and in a request.\<close>

definition propName :: "UpdateCategoryModal \<Rightarrow> jsstring option" where
  "propName s = map_option category_name (category s)"

definition optString :: "jsstring option \<Rightarrow> jsvalue" where
  "optString v = (case v of Some x \<Rightarrow> JString x | None \<Rightarrow> JUndefined)"

definition watchCategory :: "Category option \<Rightarrow> UpdateCategoryModal \<Rightarrow> UpdateCategoryModal" where
  "watchCategory newCategory s =
     (case newCategory of
        Some c \<Rightarrow> s\<lparr>category := newCategory,
                     categoryName := category_name c,
                     categoryDescription := category_description c\<rparr>
      | None \<Rightarrow> s\<lparr>category := newCategory\<rparr>)"

definition resetForm :: "UpdateCategoryModal \<Rightarrow> UpdateCategoryModal" where
  "resetForm s = s\<lparr>errorMessage := Raw (Some [])\<rparr>"

definition closeModal :: "UpdateCategoryModal \<Rightarrow> UpdateCategoryModal" where
  "closeModal s = resetForm (perform (Emit ''close'' []) s)"

definition updateCategory ::
  "(jsstring \<Rightarrow> jsstring \<Rightarrow> jsstring option \<Rightarrow> unit FetchDataResult) \<Rightarrow>
   UpdateCategoryModal \<Rightarrow> UpdateCategoryModal" where
  "updateCategory update_category s =
     (if \<not> isOpen s then s
      else if trim (categoryName s) = [] \<or> trim (categoryDescription s) = [] then
        s\<lparr>errorMessage := T ''homePage.modals.pleaseFillAllFields''\<rparr>
      else if length (categoryName s) > 50 then
        s\<lparr>errorMessage := T ''homePage.modals.newCategoryModal.maxNameCharacters''\<rparr>
      else if length (categoryDescription s) > 300 then
        s\<lparr>errorMessage := T ''homePage.modals.newCategoryModal.maxDescriptionCharacters''\<rparr>
      else
        (let n = categoryName s; d = categoryDescription s;
             result = update_category n d (propName s);
             s1 = perform (Request PUT ''update_category/''
                    [(''newCategoryName'', JString n), (''description'', JString d),
                     (''categoryName'', optString (propName s))]) s in
         if success result then
           (let s2 = s1\<lparr>categories :=
                        map (\<lambda>c. if Some (category_name c) = propName s
                                  then \<lparr>category_name = n, category_description = d\<rparr> else c)
                          (categories s1)\<rparr>;
                s3 = perform (Call ''fetchCategoriesAndTotals'' []) s2;
                s4 = perform (Emit ''selectCategory'' [categoryValue n d]) s3;
                s5 = perform (Call ''fetchEmailsData'' [JString (selectedCategory s4)]) s4
            in popup PopupSuccess (T ''constants.popUpConstants.successMessages.success'')
                 (T ''constants.popUpConstants.successMessages.updateCategorySuccess'')
                 (closeModal s5))
         else
           popup PopupError (T ''constants.popUpConstants.errorMessages.addCategoryError'')
             (Raw (error result)) s1))"

text \<open>\<open>findIndex\<close> and \<open>splice(index, 1)\<close>: the first entry with the name is removed.\<close>

fun removeFirst :: "jsstring \<Rightarrow> Category list \<Rightarrow> Category list" where
  "removeFirst n [] = []"
| "removeFirst n (c # cs) = (if category_name c = n then cs else c # removeFirst n cs)"

text \<open>\<open>deleteCategory\<close> sends the content of the form's name field, \<open>categoryName.value\<close>. It
  is split at its \<open>await\<close>: \<open>openCategoryDeletionModal\<close> calls it without awaiting it, so the
  request leaves, the modal closes, and the answer is handled afterwards.\<close>

definition deleteCategory_request :: "UpdateCategoryModal \<Rightarrow> UpdateCategoryModal" where
  "deleteCategory_request s =
     perform (Request DELETE ''delete_category/'' [(''categoryName'', JString (categoryName s))]) s"

definition deleteCategory_answer ::
  "jsstring \<Rightarrow> unit FetchDataResult \<Rightarrow> UpdateCategoryModal \<Rightarrow> UpdateCategoryModal" where
  "deleteCategory_answer DEFAULT_CATEGORY result s =
     (if \<not> success result then
        popup PopupError (T ''constants.popUpConstants.errorMessages.deleteCategoryError'')
          (Raw (error result)) s
      else
        (let s1 = perform (Emit ''selectCategory'' [categoryValue DEFAULT_CATEGORY []]) s;
             s2 = s1\<lparr>categories := removeFirst (categoryName s1) (categories s1)\<rparr>
         in popup PopupSuccess (T ''constants.popUpConstants.successMessages.success'')
              (T ''constants.popUpConstants.successMessages.deleteCategorySuccess'') s2))"

definition deleteCategory ::
  "jsstring \<Rightarrow> (jsstring \<Rightarrow> unit FetchDataResult) \<Rightarrow> UpdateCategoryModal \<Rightarrow> UpdateCategoryModal" where
  "deleteCategory DEFAULT_CATEGORY delete_category s =
     deleteCategory_answer DEFAULT_CATEGORY (delete_category (categoryName s))
       (deleteCategory_request s)"

text \<open>\<open>openCategoryDeletionModal\<close> asks for the dependencies of \<open>props.category?.name\<close>. With
  \<open>success\<close> and no \<open>data\<close>, reading \<open>result.data.nbRules\<close> throws and \<open>closeModal\<close> is not
  reached.\<close>

definition openCategoryDeletionModal ::
  "jsstring \<Rightarrow> (jsstring option \<Rightarrow> Dependencies FetchDataResult) \<Rightarrow> (jsstring \<Rightarrow> unit FetchDataResult) \<Rightarrow>
   UpdateCategoryModal \<Rightarrow> UpdateCategoryModal" where
  "openCategoryDeletionModal DEFAULT_CATEGORY get_dependencies delete_category s =
     (if \<not> isOpen s then s
      else
        (let result = get_dependencies (propName s);
             s1 = perform (Request POST ''get_dependencies/''
                    [(''categoryName'', optString (propName s))]) s in
         if \<not> success result then
           closeModal
             (popup PopupError (T ''constants.popUpConstants.errorMessages.updateCategoryError'')
                (Raw (error result)) s1)
         else
           (case data result of
              None \<Rightarrow> s1
            | Some d \<Rightarrow>
               if nbRules d = 0 \<and> nbEmails d = 0 then
                 deleteCategory_answer DEFAULT_CATEGORY (delete_category (categoryName s1))
                   (closeModal (deleteCategory_request s1))
               else
                 closeModal
                   (s1\<lparr>nbRulesLinked := nbRules d,
                       nbEmailsLinked := nbEmails d,
                       isCategoryDeletionModalOpen := True\<rparr>))))"

text \<open>The deletion modal shows the two counts; its \<open>deleteCategory\<close> event, the user's
  confirmation, runs \<open>deleteCategory\<close>, and its \<open>close\<close> event runs the handler below.\<close>

definition closeCategoryDeletionModalModal :: "UpdateCategoryModal \<Rightarrow> UpdateCategoryModal" where
  "closeCategoryDeletionModalModal s = s\<lparr>isCategoryDeletionModalOpen := False\<rparr>"


subsection \<open>Backends and states for the examples\<close>

text \<open>A backend that accepts every request, and one whose \<open>get_dependencies/\<close> counts no rule
  and no email for the category \<open>Newsletters\<close> and three rules and twelve emails for any
  other.\<close>

definition accepted :: "unit FetchDataResult" where
  "accepted = \<lparr>success = True, data = Some (), error = None\<rparr>"

definition accept_create :: "jsstring \<Rightarrow> jsstring \<Rightarrow> unit FetchDataResult" where
  "accept_create n d = accepted"

definition accept_update :: "jsstring \<Rightarrow> jsstring \<Rightarrow> jsstring option \<Rightarrow> unit FetchDataResult" where
  "accept_update n d old = accepted"

definition accept_delete :: "jsstring \<Rightarrow> unit FetchDataResult" where
  "accept_delete n = accepted"

definition dependencies_example :: "jsstring option \<Rightarrow> Dependencies FetchDataResult" where
  "dependencies_example n =
     \<lparr>success = True,
      data = Some (if n = Some (utf16 ''Newsletters'') then \<lparr>nbRules = 0, nbEmails = 0\<rparr>
                   else \<lparr>nbRules = 3, nbEmails = 12\<rparr>),
      error = None\<rparr>"

text \<open>The creation modal, open, with a form; and the update modal as it is once the parent
  has opened it for a category (the watcher has copied the category into the form).\<close>

definition newCategoryForm :: "jsstring \<Rightarrow> jsstring \<Rightarrow> categoryForm" where
  "newCategoryForm n d =
     \<lparr>displayPopup = True, effects = [], isOpen = True, categories = [],
      selectedCategory = [], categoryName = n, categoryDescription = d,
      errorMessage = Raw (Some [])\<rparr>"

definition openedFor :: "Category list \<Rightarrow> Category \<Rightarrow> UpdateCategoryModal" where
  "openedFor cs c =
     watchCategory (Some c)
       \<lparr>displayPopup = True, effects = [], isOpen = True, categories = cs,
        selectedCategory = category_name c, categoryName = [], categoryDescription = [],
        errorMessage = Raw (Some []),
        category = None, isCategoryDeletionModalOpen = False,
        nbRulesLinked = 0, nbEmailsLinked = 0\<rparr>"


section \<open>Properties of the LLM settings\<close>

subsection \<open>The catalog\<close>

lemma provider_names:
  "provider google = ''google''" "provider openai = ''openai''" "provider anthropic = ''anthropic''"
  "provider mistral = ''mistral''" "provider groq = ''groq''" "provider deepseek = ''deepseek''"
  by (simp_all add: google_def openai_def anthropic_def mistral_def groq_def deepseek_def)

lemma first_models:
  "index0 (models google) = Some (hd (models google))"
  "index0 (models openai) = Some (hd (models openai))"
  "index0 (models anthropic) = Some (hd (models anthropic))"
  "index0 (models mistral) = Some (hd (models mistral))"
  "index0 (models groq) = Some (hd (models groq))"
  "index0 (models deepseek) = Some (hd (models deepseek))"
  by (simp_all add: google_def openai_def anthropic_def mistral_def groq_def deepseek_def index0_def)

lemma mistral_first: "model_name (hd (models mistral)) = ''ministral-8b-latest''"
  by (simp add: mistral_def)

lemma catalog_cases:
  "p \<in> set llmProviderOptions \<Longrightarrow>
     p = google \<or> p = openai \<or> p = anthropic \<or> p = mistral \<or> p = groq \<or> p = deepseek"
  by (simp add: llmProviderOptions_def)

lemma index0_Some_iff: "index0 xs = Some x \<longleftrightarrow> xs \<noteq> [] \<and> x = hd xs"
  by (cases xs) (auto simp: index0_def)

lemma index0_in_set: "index0 xs = Some x \<Longrightarrow> x \<in> set xs"
  by (cases xs) (auto simp: index0_def)

lemma catalog_first_model:
  "p \<in> set llmProviderOptions \<Longrightarrow> index0 (models p) = Some (hd (models p))"
  using first_models by (auto dest!: catalog_cases)

lemma catalog_find_name:
  assumes "p \<in> set llmProviderOptions"
  shows "find (\<lambda>q. provider q = provider p) llmProviderOptions = Some p"
proof -
  consider "p = google" | "p = openai" | "p = anthropic" | "p = mistral" | "p = groq" | "p = deepseek"
    using catalog_cases [OF assms] by blast
  then show ?thesis
    by cases (simp_all add: llmProviderOptions_def provider_names)
qed

lemma catalog_head: "llmProviderOptions ! 0 = google"
  by (simp add: llmProviderOptions_def)

lemma catalog_head_in: "llmProviderOptions ! 0 \<in> set llmProviderOptions"
  by (simp add: llmProviderOptions_def)


lemma llmModelOptions_updated:
  "q \<in> set llmProviderOptions \<Longrightarrow>
     llmModelOptions (s\<lparr>llmProvider := Some q\<rparr>) = Some (models q)"
  by (simp add: llmModelOptions_def catalog_find_name)

lemma pick_provider_in_catalog:
  "(case find P llmProviderOptions of Some p \<Rightarrow> p | None \<Rightarrow> llmProviderOptions ! 0)
     \<in> set llmProviderOptions"
proof (cases "find P llmProviderOptions")
  case None
  then show ?thesis by (simp add: catalog_head_in)
next
  case (Some p)
  then have "p \<in> set llmProviderOptions" by (auto simp: find_Some_iff)
  with Some show ?thesis by simp
qed

lemma pick_model_in:
  assumes "xs \<noteq> []"
  shows "\<exists>m. (case find P xs of Some m \<Rightarrow> Some m | None \<Rightarrow> index0 xs) = Some m \<and> m \<in> set xs"
proof (cases "find P xs")
  case None
  with assms show ?thesis by (cases xs) (simp_all add: index0_def)
next
  case (Some m)
  then have "m \<in> set xs" by (auto simp: find_Some_iff)
  with Some show ?thesis by simp
qed

lemma perform_fields [simp]:
  "llmProvider (perform e s) = llmProvider s" "llmModel (perform e s) = llmModel s"
  by (simp_all add: perform_def)

lemma popup_fields [simp]:
  "llmProvider (popup ty a b s) = llmProvider s" "llmModel (popup ty a b s) = llmModel s"
  by (simp_all add: popup_def)

lemma selection_perform [simp]:
  "providerInCatalog (perform e s) = providerInCatalog s"
  "modelOfProvider (perform e s) = modelOfProvider s"
  by (simp_all add: providerInCatalog_def modelOfProvider_def cong: option.case_cong)

lemma selection_popup [simp]:
  "providerInCatalog (popup ty a b s) = providerInCatalog s"
  "modelOfProvider (popup ty a b s) = modelOfProvider s"
  by (simp_all add: providerInCatalog_def modelOfProvider_def cong: option.case_cong)

lemma selection_iff:
  "providerInCatalog s \<and> modelOfProvider s \<longleftrightarrow>
     (\<exists>p \<in> set llmProviderOptions. \<exists>m \<in> set (models p).
        llmProvider s = Some p \<and> llmModel s = Some m)"
  by (auto simp: providerInCatalog_def modelOfProvider_def)

lemma fetch_picks:
  assumes "success result" "data result = Some d"
  shows "\<exists>p \<in> set llmProviderOptions. \<exists>m \<in> set (models p).
           llmProvider (fetchLLMSettings result s) = Some p \<and>
           llmModel (fetchLLMSettings result s) = Some m"
proof -
  let ?p = "case find (\<lambda>p. Some (provider p) = data_llmProvider d) llmProviderOptions of
              Some p \<Rightarrow> p | None \<Rightarrow> llmProviderOptions ! 0"
  have pin: "?p \<in> set llmProviderOptions" by (rule pick_provider_in_catalog)
  have ne: "models ?p \<noteq> []" using catalog_first_model [OF pin] by (simp add: index0_Some_iff)
  obtain m where m: "(case find (\<lambda>m. Some (model_name m) = data_llmModel d) (models ?p) of
                         Some m \<Rightarrow> Some m | None \<Rightarrow> index0 (models ?p)) = Some m" "m \<in> set (models ?p)"
    using pick_model_in [OF ne] by blast
  have "llmProvider (fetchLLMSettings result s) = Some ?p"
    using assms by (simp add: fetchLLMSettings_def Let_def llmModelOptions_updated [OF pin])
  moreover have "llmModel (fetchLLMSettings result s) = Some m"
    using assms m(1)
    by (simp add: fetchLLMSettings_def Let_def llmModelOptions_updated [OF pin])
  ultimately show ?thesis using pin m(2) by blast
qed

lemma fetch_selection:
  assumes "providerInCatalog s" "modelOfProvider s"
  shows "providerInCatalog (fetchLLMSettings result s) \<and> modelOfProvider (fetchLLMSettings result s)"
proof (cases "success result")
  case False
  then show ?thesis using assms by (simp add: fetchLLMSettings_def Let_def)
next
  case True
  show ?thesis
  proof (cases "data result")
    case None
    then show ?thesis using True assms by (simp add: fetchLLMSettings_def Let_def)
  next
    case (Some d)
    from fetch_picks [OF True Some, of s] show ?thesis
      by (simp only: selection_iff)
  qed
qed

lemma resetSelection_selection:
  "llmProvider (resetSelection s) = Some google \<and>
   llmModel (resetSelection s) = Some (hd (models google))"
  by (simp add: resetSelection_def catalog_head first_models)

lemma reset_selection_ok:
  "providerInCatalog (resetSelection s) \<and> modelOfProvider (resetSelection s)"
  using resetSelection_selection [of s] first_models(1)
  by (simp add: providerInCatalog_def modelOfProvider_def llmProviderOptions_def index0_Some_iff)

lemma resetToDefault_selection:
  "providerInCatalog (resetToDefault result fetched s) \<and> modelOfProvider (resetToDefault result fetched s)"
  using reset_selection_ok [of s]
  by (simp add: resetToDefault_def Let_def fetch_selection)

lemma saveLLMSettings_selection:
  assumes "providerInCatalog s" "modelOfProvider s"
  shows "providerInCatalog (saveLLMSettings result fetched s) \<and> modelOfProvider (saveLLMSettings result fetched s)"
  using assms by (simp add: saveLLMSettings_def Let_def fetch_selection split: option.splits)

lemma initial_selection:
  "providerInCatalog (initialPromptCustomization dp) \<and> modelOfProvider (initialPromptCustomization dp)"
  using first_models(1)
  by (simp add: initialPromptCustomization_def providerInCatalog_def modelOfProvider_def
      catalog_head llmProviderOptions_def index0_Some_iff)

lemma selectProvider_selection:
  assumes "p \<in> set llmProviderOptions"
  shows "providerInCatalog (selectProvider p s) \<and> modelOfProvider (selectProvider p s)"
  using assms catalog_first_model [OF assms]
  by (simp add: selectProvider_def changeProvider_def providerInCatalog_def modelOfProvider_def
      index0_Some_iff)

lemma changeProvider_selection:
  assumes "providerInCatalog s"
  shows "providerInCatalog (changeProvider s) \<and> modelOfProvider (changeProvider s)"
proof -
  from assms obtain p where p: "p \<in> set llmProviderOptions" "llmProvider s = Some p"
    by (auto simp: providerInCatalog_def)
  with catalog_first_model [OF p(1)] show ?thesis
    by (simp add: changeProvider_def providerInCatalog_def modelOfProvider_def index0_Some_iff)
qed

lemma clickProvider_other:
  "map_option provider (llmProvider s) \<noteq> Some (provider p) \<Longrightarrow>
     clickProvider p s = selectProvider p s"
  by (auto simp: clickProvider_def)

lemma clickProvider_selected:
  "llmProvider s = Some p \<Longrightarrow> clickProvider p s = s\<lparr>llmProvider := None\<rparr>"
  by (simp add: clickProvider_def)


subsection \<open>Changing the provider\<close>

text \<open>
  Claim C1. For every provider of the catalog, choosing it as the selected \<open>llmProvider\<close>
  makes \<open>changeProvider\<close> set \<open>llmModel\<close> to the first entry of that provider's model list,
  which exists; for the provider named \<open>mistral\<close> that entry is \<open>ministral-8b-latest\<close>. A
  click in the select on a provider other than the selected one is such a choice.
\<close>

theorem changeProvider_first_model:
  "p \<in> set llmProviderOptions \<Longrightarrow>
     llmProvider (selectProvider p s) = Some p \<and>
     models p \<noteq> [] \<and>
     llmModel (selectProvider p s) = Some (hd (models p)) \<and>
     (provider p = ''mistral'' \<longrightarrow> model_name (hd (models p)) = ''ministral-8b-latest'') \<and>
     (map_option provider (llmProvider s) \<noteq> Some (provider p) \<longrightarrow>
        clickProvider p s = selectProvider p s)"
proof -
  assume p: "p \<in> set llmProviderOptions"
  have first: "index0 (models p) = Some (hd (models p))"
    using p by (rule catalog_first_model)
  have name: "provider p = ''mistral'' \<longrightarrow> p = mistral"
    using catalog_cases [OF p] by (auto simp: provider_names)
  show ?thesis
    using first name mistral_first
    by (auto simp: selectProvider_def changeProvider_def index0_Some_iff clickProvider_other)
qed

theorem changeProvider_first_model_witness:
  "mistral \<in> set llmProviderOptions \<and>
   llmProvider (selectProvider mistral (initialPromptCustomization True)) = Some mistral \<and>
   map_option model_name (llmModel (selectProvider mistral (initialPromptCustomization True)))
     = Some ''ministral-8b-latest'' \<and>
   clickProvider mistral (initialPromptCustomization True)
     = selectProvider mistral (initialPromptCustomization True)"
proof -
  have other: "map_option provider (llmProvider (initialPromptCustomization True))
      \<noteq> Some (provider mistral)"
    by (simp add: initialPromptCustomization_def catalog_head provider_names)
  show ?thesis
    using changeProvider_first_model [of mistral "initialPromptCustomization True"] other
    by (simp add: llmProviderOptions_def provider_names)
qed


subsection \<open>The selected model is one of the selected provider's\<close>

text \<open>
  The handlers keep the selection consistent: from a state where the selected provider
  is an entry of the catalog and the selected model is one of its models,
  \<open>changeProvider\<close>, \<open>fetchLLMSettings\<close>, \<open>resetToDefault\<close> and \<open>saveLLMSettings\<close> lead to such a
  state again, whatever the backend answers, and so does the choice of another provider
  in the select. The state the component starts in is such a state.
\<close>

lemma selection_preserved:
  assumes "providerInCatalog s" and "modelOfProvider s"
  shows "modelOfProvider (changeProvider s) \<and> providerInCatalog (changeProvider s) \<and>
         modelOfProvider (fetchLLMSettings fetched s) \<and> providerInCatalog (fetchLLMSettings fetched s) \<and>
         modelOfProvider (resetToDefault result fetched s) \<and>
         providerInCatalog (resetToDefault result fetched s) \<and>
         modelOfProvider (saveLLMSettings result fetched s) \<and>
         providerInCatalog (saveLLMSettings result fetched s) \<and>
         (\<forall>p \<in> set llmProviderOptions.
            modelOfProvider (selectProvider p s) \<and> providerInCatalog (selectProvider p s)) \<and>
         modelOfProvider (initialPromptCustomization dp) \<and>
         providerInCatalog (initialPromptCustomization dp)"
  using changeProvider_selection [OF assms(1)] fetch_selection [OF assms, of fetched]
    resetToDefault_selection [of result fetched s] saveLLMSettings_selection [OF assms, of result fetched]
    selectProvider_selection [of _ s] initial_selection [of dp]
  by blast

text \<open>
  Claim C6. The claim says that after every operation that changes the LLM settings the
  selected model belongs to the model list of the selected provider. The code at an input
  where this fails: the component is in the state it starts in, with the first provider
  of the catalog and its first model selected, and the user clicks that provider in the
  provider select. The select stores \<open>null\<close> in \<open>llmProvider\<close> and \<open>changeProvider\<close> does not
  run: \<open>llmModel\<close> is still \<open>gemini-1.5-pro\<close> and there is no selected provider whose list
  could hold it.
\<close>

theorem deselected_provider_keeps_model:
  "providerInCatalog (initialPromptCustomization True) \<and>
   modelOfProvider (initialPromptCustomization True) \<and>
   llmProvider (initialPromptCustomization True) = Some google \<and>
   llmProvider (clickProvider google (initialPromptCustomization True)) = None \<and>
   map_option model_name (llmModel (clickProvider google (initialPromptCustomization True)))
     = Some ''gemini-1.5-pro'' \<and>
   \<not> modelOfProvider (clickProvider google (initialPromptCustomization True)) \<and>
   changeProvider (clickProvider google (initialPromptCustomization True))
     = clickProvider google (initialPromptCustomization True)"
proof -
  have start: "llmProvider (initialPromptCustomization True) = Some google"
    by (simp add: initialPromptCustomization_def catalog_head)
  have model: "map_option model_name (llmModel (initialPromptCustomization True)) = Some ''gemini-1.5-pro''"
    by (simp add: initialPromptCustomization_def catalog_head index0_def google_def)
  have click: "clickProvider google (initialPromptCustomization True)
      = (initialPromptCustomization True)\<lparr>llmProvider := None\<rparr>"
    using start by (rule clickProvider_selected)
  show ?thesis
    using initial_selection [of True] start model
    by (simp add: click modelOfProvider_def changeProvider_def)
qed


section \<open>Properties of saving a prompt\<close>

lemma effects_perform [simp]: "effects (perform e s) = effects s @ [e]"
  by (simp add: perform_def)

lemma effects_popup [simp]:
  "effects (popup ty a b s) = effects s @ (if displayPopup s then [DisplayPopup ty a b] else [])"
  by (simp add: popup_def)

lemma displayPopup_perform [simp]: "displayPopup (perform e s) = displayPopup s"
  by (simp add: perform_def)

lemma displayPopup_popup [simp]: "displayPopup (popup ty a b s) = displayPopup s"
  by (simp add: popup_def)

lemma startsWith_iff: "startsWith s t \<longleftrightarrow> (\<exists>q. s = t @ q)"
  by (induction s t rule: startsWith.induct) auto

lemma str_includes_iff: "str_includes s t \<longleftrightarrow> (\<exists>p q. s = p @ t @ q)"
proof (induction s)
  case Nil
  then show ?case by auto
next
  case (Cons x xs)
  have "(\<exists>p q. x # xs = p @ t @ q) \<longleftrightarrow> (\<exists>q. x # xs = t @ q) \<or> (\<exists>p q. xs = p @ t @ q)"
  proof
    assume "\<exists>p q. x # xs = p @ t @ q"
    then obtain p q where pq: "x # xs = p @ t @ q" by blast
    show "(\<exists>q. x # xs = t @ q) \<or> (\<exists>p q. xs = p @ t @ q)"
    proof (cases p)
      case Nil
      with pq show ?thesis by auto
    next
      case (Cons y ys)
      with pq have "xs = ys @ t @ q" by simp
      then show ?thesis by blast
    qed
  next
    assume "(\<exists>q. x # xs = t @ q) \<or> (\<exists>p q. xs = p @ t @ q)"
    then show "\<exists>p q. x # xs = p @ t @ q"
    proof
      assume "\<exists>q. x # xs = t @ q"
      then obtain q where "x # xs = [] @ t @ q" by auto
      then show ?thesis by blast
    next
      assume "\<exists>p q. xs = p @ t @ q"
      then obtain p q where "x # xs = (x # p) @ t @ q" by auto
      then show ?thesis by blast
    qed
  qed
  with Cons show ?case by (simp add: startsWith_iff)
qed

lemma missingVariables_empty:
  "missingVariables promptData input = [] \<longleftrightarrow>
     (\<forall>v \<in> set (variables promptData). str_includes input (''{'' @ v @ ''}''))"
  by (simp add: missingVariables_def filter_empty_conv)

lemma missingVariables_set:
  "set (missingVariables promptData input) =
     {v \<in> set (variables promptData). \<not> str_includes input (''{'' @ v @ ''}'')}"
  by (simp add: missingVariables_def)

lemma savePrompt_effects:
  assumes "editingPrompt s = Some key" "key \<noteq> []" "customizablePrompts s key = Some promptData"
  shows "emitted (savePrompt result) s =
     (if missingVariables promptData (promptInput s) \<noteq> [] then
        (if displayPopup s then
           [DisplayPopup PopupError (T ''constants.popUpConstants.errorMessages.missingVariables'')
              (TWith ''constants.popUpConstants.errorMessages.missingVariablesDesc''
                 [(''variables'', join '', '' (missingVariables promptData (promptInput s)))])]
         else [])
      else
        Request PUT llm_settings [(key, JString (utf16 (promptInput s)))] #
        (if \<not> displayPopup s then []
         else if success result then
           [DisplayPopup PopupSuccess (T ''constants.popUpConstants.successMessages.promptSaved'')
              (T ''constants.popUpConstants.successMessages.promptSavedDesc'')]
         else
           [DisplayPopup PopupError (T ''constants.popUpConstants.errorMessages.savePromptError'')
              (Raw (error result))]))"
  using assms by (simp add: emitted_def savePrompt_def noPrompt_def Let_def)

text \<open>
  Claim C3. With a prompt selected for editing, \<open>savePrompt\<close> sends the text to the backend
  if and only if every required variable \<open>v\<close> of the prompt occurs in the text as \<open>{v}\<close>
  (\<open>str_includes\<close> is the substring relation, \<open>str_includes_iff\<close>), and then reports the
  prompt as saved if and only if the backend accepts it. When a variable is missing,
  nothing is sent and the one popup shown is the error whose \<open>variables\<close> parameter
  joins all the missing names, in the order they are declared.
\<close>

theorem savePrompt_required_variables:
  assumes "editingPrompt s = Some key" and "key \<noteq> []"
    and "customizablePrompts s key = Some promptData"
  shows "(Request PUT llm_settings [(key, JString (utf16 (promptInput s)))] \<in> set (emitted (savePrompt result) s)
            \<longleftrightarrow> (\<forall>v \<in> set (variables promptData). str_includes (promptInput s) (''{'' @ v @ ''}''))) \<and>
         (displayPopup s \<and> success result \<longrightarrow>
            (DisplayPopup PopupSuccess (T ''constants.popUpConstants.successMessages.promptSaved'')
               (T ''constants.popUpConstants.successMessages.promptSavedDesc'')
               \<in> set (emitted (savePrompt result) s)
             \<longleftrightarrow> (\<forall>v \<in> set (variables promptData). str_includes (promptInput s) (''{'' @ v @ ''}'')))) \<and>
         (displayPopup s \<and>
          \<not> (\<forall>v \<in> set (variables promptData). str_includes (promptInput s) (''{'' @ v @ ''}'')) \<longrightarrow>
            emitted (savePrompt result) s =
              [DisplayPopup PopupError (T ''constants.popUpConstants.errorMessages.missingVariables'')
                 (TWith ''constants.popUpConstants.errorMessages.missingVariablesDesc''
                    [(''variables'',
                      join '', '' (filter (\<lambda>v. \<not> str_includes (promptInput s) (''{'' @ v @ ''}''))
                                   (variables promptData)))])])"
proof -
  let ?all = "\<forall>v \<in> set (variables promptData). str_includes (promptInput s) (''{'' @ v @ ''}'')"
  have none: "missingVariables promptData (promptInput s) = [] \<longleftrightarrow> ?all"
    by (rule missingVariables_empty)
  note eff = savePrompt_effects [OF assms, of result]
  show ?thesis
  proof (cases ?all)
    case True
    then have "missingVariables promptData (promptInput s) = []" using none by simp
    with True show ?thesis by (simp add: eff)
  next
    case False
    then have "missingVariables promptData (promptInput s) \<noteq> []" using none by simp
    with False show ?thesis by (simp add: eff missingVariables_def)
  qed
qed

theorem savePrompt_required_variables_witness:
  "editingPrompt
     ((initialPromptCustomization True)
        \<lparr>editingPrompt := Some ''summary'',
         customizablePrompts := [''summary'' \<mapsto> \<lparr>prompt = ''{subject} {sender} {date}'',
                                               variables = [''subject'', ''sender'', ''date'']\<rparr>],
         promptInput := ''Summarize {subject}''\<rparr>) = Some ''summary'' \<and>
   emitted (savePrompt \<lparr>success = True, data = None, error = None\<rparr>)
     ((initialPromptCustomization True)
        \<lparr>editingPrompt := Some ''summary'',
         customizablePrompts := [''summary'' \<mapsto> \<lparr>prompt = ''{subject} {sender} {date}'',
                                               variables = [''subject'', ''sender'', ''date'']\<rparr>],
         promptInput := ''Summarize {subject}''\<rparr>) =
     [DisplayPopup PopupError (T ''constants.popUpConstants.errorMessages.missingVariables'')
        (TWith ''constants.popUpConstants.errorMessages.missingVariablesDesc''
           [(''variables'', ''sender, date'')])] \<and>
   Request PUT llm_settings [(''summary'', JString (utf16 ''Summarize {subject} from {sender} on {date}''))]
     \<in> set (emitted (savePrompt \<lparr>success = True, data = None, error = None\<rparr>)
         ((initialPromptCustomization True)
            \<lparr>editingPrompt := Some ''summary'',
             customizablePrompts := [''summary'' \<mapsto> \<lparr>prompt = ''{subject} {sender} {date}'',
                                                   variables = [''subject'', ''sender'', ''date'']\<rparr>],
             promptInput := ''Summarize {subject} from {sender} on {date}''\<rparr>))"
proof -
  let ?pd = "\<lparr>prompt = ''{subject} {sender} {date}'', variables = [''subject'', ''sender'', ''date'']\<rparr>"
  let ?s = "\<lambda>input. (initialPromptCustomization True)
        \<lparr>editingPrompt := Some ''summary'',
         customizablePrompts := [''summary'' \<mapsto> ?pd],
         promptInput := input\<rparr>"
  let ?ok = "\<lparr>success = True, data = None, error = None\<rparr> :: unit FetchDataResult"
  have dp: "displayPopup (?s input)" for input
    by (simp add: initialPromptCustomization_def)
  have bad: "emitted (savePrompt ?ok) (?s ''Summarize {subject}'') =
     [DisplayPopup PopupError (T ''constants.popUpConstants.errorMessages.missingVariables'')
        (TWith ''constants.popUpConstants.errorMessages.missingVariablesDesc''
           [(''variables'', ''sender, date'')])]"
    using savePrompt_required_variables [of "?s ''Summarize {subject}''" "''summary''" ?pd ?ok] dp
    by simp
  have good: "Request PUT llm_settings [(''summary'', JString (utf16 ''Summarize {subject} from {sender} on {date}''))]
     \<in> set (emitted (savePrompt ?ok) (?s ''Summarize {subject} from {sender} on {date}''))"
    using savePrompt_required_variables
      [of "?s ''Summarize {subject} from {sender} on {date}''" "''summary''" ?pd ?ok]
    by simp
  show ?thesis using bad good by simp
qed


section \<open>Properties of resetting to the defaults\<close>

lemma google_first_found:
  "find (\<lambda>p. provider p = ''google'') llmProviderOptions = Some google"
  "find (\<lambda>m. model_name m = model_name (hd (models google))) (models google) = Some (hd (models google))"
  by (simp_all add: llmProviderOptions_def provider_names google_def)

lemma fetch_effects:
  "effects (fetchLLMSettings fetched s) =
     effects s @ Request GET llm_settings [] #
       (if \<not> success fetched \<and> displayPopup s
        then [DisplayPopup PopupError (Raw (Some ''Failed to fetch LLM settings'')) (Raw (error fetched))]
        else [])"
  by (simp add: fetchLLMSettings_def Let_def split: option.splits)

lemma fetch_of_reset_store:
  assumes "success fetched" "data fetched = Some (store_get (store_resetAll defaults st))"
  shows "llmProvider (fetchLLMSettings fetched s) = Some google \<and>
         llmModel (fetchLLMSettings fetched s) = Some (hd (models google))"
proof -
  have gin: "google \<in> set llmProviderOptions" by (simp add: llmProviderOptions_def)
  show ?thesis
    using assms
    by (simp add: fetchLLMSettings_def Let_def store_get_def store_resetAll_def catalog_head
        provider_names google_first_found llmModelOptions_updated [OF gin])
qed

lemma fetch_failed_selection:
  "\<not> success fetched \<Longrightarrow>
     llmProvider (fetchLLMSettings fetched s) = llmProvider s \<and>
     llmModel (fetchLLMSettings fetched s) = llmModel s"
  by (simp add: fetchLLMSettings_def Let_def)

text \<open>
  Claim C8. \<open>resetToDefault\<close>, the handler of the "reset all" button, first sets the selected
  provider to the first provider of the catalog and the selected model to its first
  model, and sends \<open>resetAll\<close> to the backend. If the request fails, or the settings cannot
  be fetched again, that selection stays; if both succeed and the backend answers with
  the settings of a store reset as the spec says, the selection read back is again the
  first provider and its first model.
\<close>

theorem resetToDefault_default_selection:
  assumes "success result \<and> success fetched \<longrightarrow>
             data fetched = Some (store_get (store_resetAll defaults st))"
  shows "llmProvider (resetSelection s) = Some (llmProviderOptions ! 0) \<and>
         llmModel (resetSelection s) = Some (hd (models (llmProviderOptions ! 0))) \<and>
         Request DELETE llm_settings [(''resetAll'', JBool True)]
           \<in> set (emitted (resetToDefault result fetched) s) \<and>
         llmProvider (resetToDefault result fetched s) = Some (llmProviderOptions ! 0) \<and>
         llmModel (resetToDefault result fetched s) = Some (hd (models (llmProviderOptions ! 0)))"
proof -
  note local = resetSelection_selection [of s]
  have eff: "effects (resetSelection s) = effects s" "displayPopup (resetSelection s) = displayPopup s"
    by (simp_all add: resetSelection_def)
  have req: "Request DELETE llm_settings [(''resetAll'', JBool True)]
      \<in> set (emitted (resetToDefault result fetched) s)"
    by (simp add: emitted_def resetToDefault_def Let_def fetch_effects eff)
  have final: "llmProvider (resetToDefault result fetched s) = Some google \<and>
      llmModel (resetToDefault result fetched s) = Some (hd (models google))"
  proof (cases "success result")
    case False
    then show ?thesis using local by (simp add: resetToDefault_def Let_def)
  next
    case True
    show ?thesis
    proof (cases "success fetched")
      case False
      then show ?thesis using True local
        by (simp add: resetToDefault_def Let_def fetch_failed_selection)
    next
      case f: True
      with True assms have "data fetched = Some (store_get (store_resetAll defaults st))" by simp
      from fetch_of_reset_store [OF f this] show ?thesis using True
        by (simp add: resetToDefault_def Let_def)
    qed
  qed
  show ?thesis using local req final by (simp add: catalog_head)
qed

theorem resetToDefault_default_selection_witness:
  "data \<lparr>success = True,
         data = Some (store_get (store_resetAll Map.empty
                  \<lparr>stored_llmProvider = ''mistral'', stored_llmModel = ''mistral-small-latest'',
                   stored_prompts = Map.empty\<rparr>)),
         error = None\<rparr>
     = Some (store_get (store_resetAll Map.empty
                  \<lparr>stored_llmProvider = ''mistral'', stored_llmModel = ''mistral-small-latest'',
                   stored_prompts = Map.empty\<rparr>)) \<and>
   map_option provider (llmProvider (resetToDefault \<lparr>success = True, data = None, error = None\<rparr>
      \<lparr>success = True,
       data = Some (store_get (store_resetAll Map.empty
                \<lparr>stored_llmProvider = ''mistral'', stored_llmModel = ''mistral-small-latest'',
                 stored_prompts = Map.empty\<rparr>)),
       error = None\<rparr>
      (selectProvider mistral (initialPromptCustomization True)))) = Some ''google'' \<and>
   map_option model_name (llmModel (resetToDefault \<lparr>success = True, data = None, error = None\<rparr>
      \<lparr>success = True,
       data = Some (store_get (store_resetAll Map.empty
                \<lparr>stored_llmProvider = ''mistral'', stored_llmModel = ''mistral-small-latest'',
                 stored_prompts = Map.empty\<rparr>)),
       error = None\<rparr>
      (selectProvider mistral (initialPromptCustomization True)))) = Some ''gemini-1.5-pro''"
proof -
  have first: "model_name (hd (models google)) = ''gemini-1.5-pro''" by (simp add: google_def)
  show ?thesis
    using resetToDefault_default_selection
      [of "\<lparr>success = True, data = None, error = None\<rparr>"
          "\<lparr>success = True,
            data = Some (store_get (store_resetAll Map.empty
                \<lparr>stored_llmProvider = ''mistral'', stored_llmModel = ''mistral-small-latest'',
                 stored_prompts = Map.empty\<rparr>)),
            error = None\<rparr>"
          Map.empty
          "\<lparr>stored_llmProvider = ''mistral'', stored_llmModel = ''mistral-small-latest'',
            stored_prompts = Map.empty\<rparr>"
          "selectProvider mistral (initialPromptCustomization True)"]
    by (simp add: catalog_head provider_names first)
qed


section \<open>Properties of linking a mailbox\<close>

lemma authorize_denied:
  assumes "userPlan s = Some plan" "isTrial plan \<or> \<not> isActive plan"
  shows "authorize provider' s =
     popup PopupError (T ''settingsPage.accountPage.failedToGenerateAuthURL'')
       (T (if isTrial plan then ''settingsPage.accountPage.singleEmailTrialLinkLimit''
           else ''settingsPage.accountPage.inactiveSubscriptionLinkError'')) s"
  using assms by (auto simp: authorize_def)

text \<open>
  Claim C5. For every provider type, when a plan is present and it is a trial or not
  active, \<open>authorize\<close> stops at the plan check: \<open>typeApi\<close> keeps its value, the description
  modal that starts the linking flow is not opened, and the only effect is the error
  popup with the reason (the trial's single-link limit when the plan is a trial, the
  inactive subscription otherwise), shown when \<open>displayPopup\<close> was provided.
\<close>

theorem authorize_plan_restriction:
  assumes "userPlan s = Some plan" and "isTrial plan \<or> \<not> isActive plan"
  shows "typeApi (authorize provider' s) = typeApi s \<and>
         Call ''openAddUserDescriptionModal'' [] \<notin> set (emitted (authorize provider') s) \<and>
         emitted (authorize provider') s =
           (if displayPopup s then
              [DisplayPopup PopupError (T ''settingsPage.accountPage.failedToGenerateAuthURL'')
                 (T (if isTrial plan then ''settingsPage.accountPage.singleEmailTrialLinkLimit''
                     else ''settingsPage.accountPage.inactiveSubscriptionLinkError''))]
            else [])"
  by (simp add: authorize_denied [OF assms] emitted_def popup_def perform_def)

theorem authorize_plan_restriction_witness:
  "userPlan \<lparr>displayPopup = True, effects = [], typeApi = [],
             userPlan = Some \<lparr>isTrial = False, isActive = False\<rparr>,
             openAddUserDescriptionModal = True, emailsLinked = Some [],
             sessionStorage = Map.empty\<rparr> = Some \<lparr>isTrial = False, isActive = False\<rparr> \<and>
   authorize GOOGLE
     \<lparr>displayPopup = True, effects = [], typeApi = [],
      userPlan = Some \<lparr>isTrial = False, isActive = False\<rparr>,
      openAddUserDescriptionModal = True, emailsLinked = Some [],
      sessionStorage = Map.empty\<rparr> =
     \<lparr>displayPopup = True,
      effects = [DisplayPopup PopupError (T ''settingsPage.accountPage.failedToGenerateAuthURL'')
                   (T ''settingsPage.accountPage.inactiveSubscriptionLinkError'')],
      typeApi = [],
      userPlan = Some \<lparr>isTrial = False, isActive = False\<rparr>,
      openAddUserDescriptionModal = True, emailsLinked = Some [],
      sessionStorage = Map.empty\<rparr>"
proof -
  let ?s = "\<lparr>displayPopup = True, effects = [], typeApi = [],
      userPlan = Some \<lparr>isTrial = False, isActive = False\<rparr>,
      openAddUserDescriptionModal = True, emailsLinked = Some [],
      sessionStorage = Map.empty\<rparr>"
  have "emitted (authorize GOOGLE) ?s =
      [DisplayPopup PopupError (T ''settingsPage.accountPage.failedToGenerateAuthURL'')
         (T ''settingsPage.accountPage.inactiveSubscriptionLinkError'')]"
    using authorize_plan_restriction [of ?s "\<lparr>isTrial = False, isActive = False\<rparr>" GOOGLE]
    by simp
  then show ?thesis
    by (simp add: emitted_def authorize_def popup_def perform_def)
qed

text \<open>
  Claim C10. For every provider type, when no plan is present \<open>authorize\<close> checks nothing:
  it stores the provider in \<open>typeApi\<close> and, for Microsoft and Google, opens the description
  modal. An error popup of \<open>authorize\<close> is raised only when a plan is present and is a trial
  or not active.
\<close>

theorem authorize_without_plan:
  "(userPlan s = None \<longrightarrow>
      typeApi (authorize provider' s) = provider' \<and>
      emitted (authorize provider') s =
        (if (provider' = MICROSOFT \<or> provider' = GOOGLE) \<and> openAddUserDescriptionModal s
         then [Call ''openAddUserDescriptionModal'' []] else [])) \<and>
   ((\<exists>title message. DisplayPopup PopupError title message \<in> set (emitted (authorize provider') s)) \<longrightarrow>
      (\<exists>plan. userPlan s = Some plan \<and> (isTrial plan \<or> \<not> isActive plan)))"
proof (cases "userPlan s")
  case None
  then have "authorize provider' s =
      (if (provider' = MICROSOFT \<or> provider' = GOOGLE) \<and> openAddUserDescriptionModal s
       then perform (Call ''openAddUserDescriptionModal'' []) (s\<lparr>typeApi := provider'\<rparr>)
       else s\<lparr>typeApi := provider'\<rparr>)"
    by (simp add: authorize_def Let_def)
  with None show ?thesis by (simp add: emitted_def perform_def)
next
  case (Some plan)
  show ?thesis
  proof (cases "isTrial plan \<or> \<not> isActive plan")
    case True
    with Some show ?thesis by simp
  next
    case False
    with Some have "authorize provider' s =
        (if (provider' = MICROSOFT \<or> provider' = GOOGLE) \<and> openAddUserDescriptionModal s
         then perform (Call ''openAddUserDescriptionModal'' []) (s\<lparr>typeApi := provider'\<rparr>)
         else s\<lparr>typeApi := provider'\<rparr>)"
      by (simp add: authorize_def Let_def)
    with Some show ?thesis by (simp add: emitted_def perform_def)
  qed
qed

theorem authorize_without_plan_witness:
  "userPlan \<lparr>displayPopup = True, effects = [], typeApi = [], userPlan = None,
             openAddUserDescriptionModal = True, emailsLinked = Some [],
             sessionStorage = Map.empty\<rparr> = None \<and>
   authorize MICROSOFT
     \<lparr>displayPopup = True, effects = [], typeApi = [], userPlan = None,
      openAddUserDescriptionModal = True, emailsLinked = Some [],
      sessionStorage = Map.empty\<rparr> =
     \<lparr>displayPopup = True, effects = [Call ''openAddUserDescriptionModal'' []],
      typeApi = ''microsoft'', userPlan = None,
      openAddUserDescriptionModal = True, emailsLinked = Some [],
      sessionStorage = Map.empty\<rparr>"
proof -
  let ?s = "\<lparr>displayPopup = True, effects = [], typeApi = [], userPlan = None,
      openAddUserDescriptionModal = True, emailsLinked = Some [],
      sessionStorage = Map.empty\<rparr>"
  have "typeApi (authorize MICROSOFT ?s) = MICROSOFT \<and>
      emitted (authorize MICROSOFT) ?s = [Call ''openAddUserDescriptionModal'' []]"
    using authorize_without_plan [of ?s MICROSOFT] by simp
  then show ?thesis
    by (simp add: emitted_def authorize_def perform_def MICROSOFT_def)
qed


subsection \<open>Linking the same mailbox again\<close>

lemma exchangeCode_ok:
  assumes "oauth code pt = Inr (address, token)"
  shows "exchangeCode oauth code pt True mailboxes =
     (Inr \<lparr>mailbox_email = address, providerType = pt, tokenState = token\<rparr>,
      if (address, pt) \<in> set (map mailboxKey mailboxes)
      then map (\<lambda>m. if mailboxKey m = (address, pt)
                      then \<lparr>mailbox_email = address, providerType = pt, tokenState = token\<rparr>
                      else m) mailboxes
      else mailboxes @ [\<lparr>mailbox_email = address, providerType = pt, tokenState = token\<rparr>])"
  using assms by (simp add: exchangeCode_def Let_def)

lemma keys_of_update:
  "mailboxKey mailbox = k \<Longrightarrow>
   map mailboxKey (map (\<lambda>m. if mailboxKey m = k then mailbox else m) mailboxes) = map mailboxKey mailboxes"
  by (induction mailboxes) auto

lemma exchangeCode_keys:
  assumes "oauth code pt = Inr (address, token)"
  shows "map mailboxKey (snd (exchangeCode oauth code pt True mailboxes)) =
     (if (address, pt) \<in> set (map mailboxKey mailboxes) then map mailboxKey mailboxes
      else map mailboxKey mailboxes @ [(address, pt)])"
proof -
  have key: "mailboxKey \<lparr>mailbox_email = address, providerType = pt, tokenState = token\<rparr> = (address, pt)"
    by (simp add: mailboxKey_def)
  show ?thesis
    using assms by (simp add: exchangeCode_def Let_def keys_of_update [OF key] key)
qed

lemma exchangeCode_distinct:
  assumes "oauth code pt = Inr (address, token)" "distinct (map mailboxKey mailboxes)"
  shows "distinct (map mailboxKey (snd (exchangeCode oauth code pt True mailboxes)))"
  using assms(2) exchangeCode_keys [of oauth code pt address token mailboxes] assms(1) by simp

lemma exchangeCode_linked:
  assumes "oauth code pt = Inr (address, token)"
  shows "(address, pt) \<in> set (map mailboxKey (snd (exchangeCode oauth code pt True mailboxes)))"
  using exchangeCode_keys [of oauth code pt address token mailboxes] assms by simp

lemma one_entry:
  "distinct (map f xs) \<Longrightarrow> k \<in> set (map f xs) \<Longrightarrow> length (filter (\<lambda>x. f x = k) xs) = 1"
proof (induction xs)
  case Nil
  then show ?case by simp
next
  case (Cons x xs)
  show ?case
  proof (cases "f x = k")
    case True
    with Cons.prems have "k \<notin> f ` set xs" by auto
    then have "filter (\<lambda>x. f x = k) xs = []" by (auto simp: filter_empty_conv)
    with True show ?thesis by simp
  next
    case False
    with Cons show ?thesis by auto
  qed
qed

lemma emailsLinkedOf_count:
  "length (filter (\<lambda>e. (linked_email e, linked_typeApi e) = k) (emailsLinkedOf mailboxes)) =
   length (filter (\<lambda>m. mailboxKey m = k) mailboxes)"
  by (induction mailboxes) (auto simp: emailsLinkedOf_def mailboxKey_def)

lemma linkEmail_emailsLinked:
  "success result \<Longrightarrow>
     emailsLinked (linkEmail result fetched code regrant s) = data fetched"
  by (simp add: linkEmail_def Let_def fetchEmailLinked_def perform_def popup_def)

text \<open>
  Claim C9. Let the linked mailboxes have pairwise different (email, providerType) pairs
  and let the authorization code be one the provider exchanges for a mailbox and a token.
  After \<open>exchangeCode\<close> has run twice with this code and \<open>consentRegrant = true\<close>, exactly
  one linked mailbox has that mailbox's pair: the second run succeeds, leaves the number
  of mailboxes as the first run left it, and the entry holds the token. \<open>linkEmail\<close> then
  stores the backend's list in \<open>emailsLinked\<close>, where the pair occurs once as well.
\<close>

theorem exchangeCode_regrant_once:
  assumes "distinct (map mailboxKey mailboxes)" and "oauth code pt = Inr (address, token)"
  shows "length (filter (\<lambda>m. mailboxKey m = (address, pt))
            (snd (exchangeCode oauth code pt True
               (snd (exchangeCode oauth code pt True mailboxes))))) = 1 \<and>
         fst (exchangeCode oauth code pt True (snd (exchangeCode oauth code pt True mailboxes))) =
           Inr \<lparr>mailbox_email = address, providerType = pt, tokenState = token\<rparr> \<and>
         length (snd (exchangeCode oauth code pt True (snd (exchangeCode oauth code pt True mailboxes)))) =
           length (snd (exchangeCode oauth code pt True mailboxes)) \<and>
         \<lparr>mailbox_email = address, providerType = pt, tokenState = token\<rparr>
           \<in> set (snd (exchangeCode oauth code pt True (snd (exchangeCode oauth code pt True mailboxes)))) \<and>
         distinct (map mailboxKey
           (snd (exchangeCode oauth code pt True (snd (exchangeCode oauth code pt True mailboxes))))) \<and>
         emailsLinked
           (linkEmail
              (linkResult (fst (exchangeCode oauth code pt True (snd (exchangeCode oauth code pt True mailboxes)))))
              \<lparr>success = True,
               data = Some (emailsLinkedOf
                 (snd (exchangeCode oauth code pt True (snd (exchangeCode oauth code pt True mailboxes))))),
               error = None\<rparr>
              code True s) =
           Some (emailsLinkedOf
             (snd (exchangeCode oauth code pt True (snd (exchangeCode oauth code pt True mailboxes))))) \<and>
         length (filter (\<lambda>e. (linked_email e, linked_typeApi e) = (address, pt))
           (emailsLinkedOf
             (snd (exchangeCode oauth code pt True (snd (exchangeCode oauth code pt True mailboxes)))))) = 1"
proof -
  let ?m1 = "snd (exchangeCode oauth code pt True mailboxes)"
  let ?m2 = "snd (exchangeCode oauth code pt True ?m1)"
  let ?mb = "\<lparr>mailbox_email = address, providerType = pt, tokenState = token\<rparr>"
  have d1: "distinct (map mailboxKey ?m1)" using exchangeCode_distinct [of oauth code pt address token mailboxes] assms by simp
  have d2: "distinct (map mailboxKey ?m2)" using exchangeCode_distinct [of oauth code pt address token ?m1] assms(2) d1 by simp
  have in1: "(address, pt) \<in> set (map mailboxKey ?m1)"
    using exchangeCode_linked [of oauth code pt address token mailboxes] assms(2) by simp
  have in2: "(address, pt) \<in> set (map mailboxKey ?m2)"
    using exchangeCode_linked [of oauth code pt address token ?m1] assms(2) by simp
  have one: "length (filter (\<lambda>m. mailboxKey m = (address, pt)) ?m2) = 1"
    by (rule one_entry [OF d2 in2])
  have res: "fst (exchangeCode oauth code pt True ?m1) = Inr ?mb"
    using exchangeCode_ok [of oauth code pt address token ?m1] assms(2) by simp
  have upd: "?m2 = map (\<lambda>m. if mailboxKey m = (address, pt) then ?mb else m) ?m1"
    using in1 exchangeCode_ok [of oauth code pt address token ?m1] assms(2) by simp
  have len: "length ?m2 = length ?m1" by (subst upd) simp
  from in1 obtain m where m: "m \<in> set ?m1" "mailboxKey m = (address, pt)" by auto
  then have mem: "?mb \<in> set ?m2" by (subst upd) force
  have shown: "emailsLinked
      (linkEmail (linkResult (fst (exchangeCode oauth code pt True ?m1)))
         \<lparr>success = True, data = Some (emailsLinkedOf ?m2), error = None\<rparr> code True s) =
      Some (emailsLinkedOf ?m2)"
    by (subst linkEmail_emailsLinked) (simp_all add: res linkResult_def)
  have listed: "length (filter (\<lambda>e. (linked_email e, linked_typeApi e) = (address, pt))
      (emailsLinkedOf ?m2)) = 1"
    using one by (simp only: emailsLinkedOf_count)
  from one res len mem d2 shown listed show ?thesis by (intro conjI)
qed

theorem exchangeCode_regrant_once_witness:
  "distinct (map mailboxKey
     [\<lparr>mailbox_email = ''ann@example.org'', providerType = ''google'', tokenState = ''t0''\<rparr>,
      \<lparr>mailbox_email = ''ann@example.org'', providerType = ''microsoft'', tokenState = ''t1''\<rparr>]) \<and>
   (\<lambda>c p. if c = ''4/0AX'' \<and> p = ''google'' then Inr (''ann@example.org'', ''t2'')
           else Inl ''invalid_grant'') ''4/0AX'' ''google'' = Inr (''ann@example.org'', ''t2'') \<and>
   snd (exchangeCode
          (\<lambda>c p. if c = ''4/0AX'' \<and> p = ''google'' then Inr (''ann@example.org'', ''t2'')
                  else Inl ''invalid_grant'') ''4/0AX'' ''google'' True
          (snd (exchangeCode
             (\<lambda>c p. if c = ''4/0AX'' \<and> p = ''google'' then Inr (''ann@example.org'', ''t2'')
                     else Inl ''invalid_grant'') ''4/0AX'' ''google'' True
             [\<lparr>mailbox_email = ''ann@example.org'', providerType = ''google'', tokenState = ''t0''\<rparr>,
              \<lparr>mailbox_email = ''ann@example.org'', providerType = ''microsoft'', tokenState = ''t1''\<rparr>]))) =
     [\<lparr>mailbox_email = ''ann@example.org'', providerType = ''google'', tokenState = ''t2''\<rparr>,
      \<lparr>mailbox_email = ''ann@example.org'', providerType = ''microsoft'', tokenState = ''t1''\<rparr>] \<and>
   length (filter (\<lambda>m. mailboxKey m = (''ann@example.org'', ''google''))
     (snd (exchangeCode
          (\<lambda>c p. if c = ''4/0AX'' \<and> p = ''google'' then Inr (''ann@example.org'', ''t2'')
                  else Inl ''invalid_grant'') ''4/0AX'' ''google'' True
          (snd (exchangeCode
             (\<lambda>c p. if c = ''4/0AX'' \<and> p = ''google'' then Inr (''ann@example.org'', ''t2'')
                     else Inl ''invalid_grant'') ''4/0AX'' ''google'' True
             [\<lparr>mailbox_email = ''ann@example.org'', providerType = ''google'', tokenState = ''t0''\<rparr>,
              \<lparr>mailbox_email = ''ann@example.org'', providerType = ''microsoft'', tokenState = ''t1''\<rparr>]))))) = 1"
proof -
  let ?oauth = "\<lambda>c p. if c = ''4/0AX'' \<and> p = ''google'' then Inr (''ann@example.org'', ''t2'')
                     else (Inl ''invalid_grant'' :: string + string \<times> string)"
  let ?mbs = "[\<lparr>mailbox_email = ''ann@example.org'', providerType = ''google'', tokenState = ''t0''\<rparr>,
               \<lparr>mailbox_email = ''ann@example.org'', providerType = ''microsoft'', tokenState = ''t1''\<rparr>]"
  have d: "distinct (map mailboxKey ?mbs)" by (simp add: mailboxKey_def)
  have o: "?oauth ''4/0AX'' ''google'' = Inr (''ann@example.org'', ''t2'')" by simp
  have twice: "snd (exchangeCode ?oauth ''4/0AX'' ''google'' True
                  (snd (exchangeCode ?oauth ''4/0AX'' ''google'' True ?mbs))) =
     [\<lparr>mailbox_email = ''ann@example.org'', providerType = ''google'', tokenState = ''t2''\<rparr>,
      \<lparr>mailbox_email = ''ann@example.org'', providerType = ''microsoft'', tokenState = ''t1''\<rparr>]"
    by (simp add: exchangeCode_def mailboxKey_def Let_def)
  from exchangeCode_regrant_once [of ?mbs ?oauth "''4/0AX''" "''google''" "''ann@example.org''" "''t2''", OF d o]
  have "length (filter (\<lambda>m. mailboxKey m = (''ann@example.org'', ''google''))
     (snd (exchangeCode ?oauth ''4/0AX'' ''google'' True
        (snd (exchangeCode ?oauth ''4/0AX'' ''google'' True ?mbs))))) = 1"
    by (rule conjunct1)
  with d o twice show ?thesis by (intro conjI)
qed


section \<open>Properties of the category modals\<close>

subsection \<open>The bounds on the name and the description\<close>

lemma trim_blank: "isWhiteSpace c \<Longrightarrow> trim (replicate n c) = []"
  by (simp add: trim_def dropWhile_replicate)

lemma trim_letters: "0 < n \<Longrightarrow> \<not> isWhiteSpace c \<Longrightarrow> trim (replicate n c) \<noteq> []"
  by (simp add: trim_def dropWhile_replicate)

lemma addCategory_effects:
  assumes "isOpen s"
  shows "emitted (addCategory create_categories) s =
     (if trim (categoryName s) = [] \<or> trim (categoryDescription s) = [] \<or>
         length (categoryName s) > 50 \<or> length (categoryDescription s) > 300 then []
      else
        Request POST ''create_categories/''
          [(''categories'', JArray [categoryValue (categoryName s) (categoryDescription s)])] #
        (if success (create_categories (categoryName s) (categoryDescription s)) then
           [Emit ''selectCategory'' [categoryValue (categoryName s) (categoryDescription s)],
            Call ''createDefaultFilters'' [JString (categoryName s)],
            Call ''fetchCategoriesAndTotals'' [],
            Call ''fetchFiltersData'' [JString (categoryName s)],
            Call ''fetchEmailsData'' [JString (categoryName s)],
            Emit ''close'' []] @
           (if displayPopup s then
              [DisplayPopup PopupSuccess (T ''constants.popUpConstants.successMessages.success'')
                 (T ''constants.popUpConstants.successMessages.categoryAddedSuccess'')]
            else [])
         else
           Emit ''close'' [] #
           (if displayPopup s then
              [DisplayPopup PopupError (T ''constants.popUpConstants.errorMessages.addCategoryError'')
                 (Raw (error (create_categories (categoryName s) (categoryDescription s))))]
            else [])))"
  using assms
  by (simp add: emitted_def addCategory_def Let_def closeModal_new_def resetForm_new_def)

lemma addCategory_error:
  assumes "isOpen s"
  shows "errorMessage (addCategory create_categories s) =
     (if trim (categoryName s) = [] \<or> trim (categoryDescription s) = [] then
        T ''homePage.modals.pleaseFillAllFields''
      else if length (categoryName s) > 50 then
        T ''homePage.modals.newCategoryModal.maxNameCharacters''
      else if length (categoryDescription s) > 300 then
        T ''homePage.modals.newCategoryModal.maxDescriptionCharacters''
      else Raw (Some []))"
  using assms
  by (simp add: addCategory_def Let_def closeModal_new_def resetForm_new_def popup_def perform_def)

lemma updateCategory_effects:
  assumes "isOpen s"
  shows "emitted (updateCategory update_category) s =
     (if trim (categoryName s) = [] \<or> trim (categoryDescription s) = [] \<or>
         length (categoryName s) > 50 \<or> length (categoryDescription s) > 300 then []
      else
        Request PUT ''update_category/''
          [(''newCategoryName'', JString (categoryName s)),
           (''description'', JString (categoryDescription s)),
           (''categoryName'', optString (propName s))] #
        (if success (update_category (categoryName s) (categoryDescription s) (propName s)) then
           [Call ''fetchCategoriesAndTotals'' [],
            Emit ''selectCategory'' [categoryValue (categoryName s) (categoryDescription s)],
            Call ''fetchEmailsData'' [JString (selectedCategory s)],
            Emit ''close'' []] @
           (if displayPopup s then
              [DisplayPopup PopupSuccess (T ''constants.popUpConstants.successMessages.success'')
                 (T ''constants.popUpConstants.successMessages.updateCategorySuccess'')]
            else [])
         else
           (if displayPopup s then
              [DisplayPopup PopupError (T ''constants.popUpConstants.errorMessages.addCategoryError'')
                 (Raw (error (update_category (categoryName s) (categoryDescription s) (propName s))))]
            else [])))"
  using assms
  by (simp add: emitted_def updateCategory_def Let_def closeModal_def resetForm_def propName_def
      perform_def popup_def)

lemma updateCategory_error:
  assumes "isOpen s"
  shows "errorMessage (updateCategory update_category s) =
     (if trim (categoryName s) = [] \<or> trim (categoryDescription s) = [] then
        T ''homePage.modals.pleaseFillAllFields''
      else if length (categoryName s) > 50 then
        T ''homePage.modals.newCategoryModal.maxNameCharacters''
      else if length (categoryDescription s) > 300 then
        T ''homePage.modals.newCategoryModal.maxDescriptionCharacters''
      else if success (update_category (categoryName s) (categoryDescription s) (propName s)) then
        Raw (Some [])
      else errorMessage s)"
  using assms
  by (simp add: updateCategory_def Let_def closeModal_def resetForm_def popup_def perform_def)

lemma closed_modal_ignores:
  "\<not> isOpen s \<Longrightarrow> addCategory create_categories s = s"
  "\<not> isOpen u \<Longrightarrow> updateCategory update_category u = u"
  by (simp_all add: addCategory_def updateCategory_def)

text \<open>
  Claim C7, amended. While the modal is open, and for every name and description that
  are not blank after trimming, creating a category and renaming one fail with a
  validation error, and nothing is sent, when the name is longer than 50 or the
  description longer than 300 (the name's message first), and are accepted, which is to
  say sent to the backend with no validation error left in the form, otherwise: so at a
  name of length 50 and a description of length 300. A name or a description that is
  blank after trimming fails with the fill-all-fields validation error whatever its
  length. Lengths count UTF-16 code units, as \<open>.length\<close> does.
\<close>

theorem category_length_validation:
  assumes "isOpen s" and "isOpen u"
  shows "(length (categoryName s) > 50 \<or> length (categoryDescription s) > 300 \<longrightarrow>
            emitted (addCategory create_categories) s = [] \<and>
            errorMessage (addCategory create_categories s) \<in>
              {T ''homePage.modals.pleaseFillAllFields'',
               T ''homePage.modals.newCategoryModal.maxNameCharacters'',
               T ''homePage.modals.newCategoryModal.maxDescriptionCharacters''}) \<and>
         (trim (categoryName s) = [] \<or> trim (categoryDescription s) = [] \<longrightarrow>
            emitted (addCategory create_categories) s = [] \<and>
            errorMessage (addCategory create_categories s) = T ''homePage.modals.pleaseFillAllFields'') \<and>
         (trim (categoryName s) \<noteq> [] \<and> trim (categoryDescription s) \<noteq> [] \<and>
          length (categoryName s) > 50 \<longrightarrow>
            emitted (addCategory create_categories) s = [] \<and>
            errorMessage (addCategory create_categories s) =
              T ''homePage.modals.newCategoryModal.maxNameCharacters'') \<and>
         (trim (categoryName s) \<noteq> [] \<and> trim (categoryDescription s) \<noteq> [] \<and>
          length (categoryName s) \<le> 50 \<and> length (categoryDescription s) > 300 \<longrightarrow>
            emitted (addCategory create_categories) s = [] \<and>
            errorMessage (addCategory create_categories s) =
              T ''homePage.modals.newCategoryModal.maxDescriptionCharacters'') \<and>
         (trim (categoryName s) \<noteq> [] \<and> trim (categoryDescription s) \<noteq> [] \<and>
          length (categoryName s) \<le> 50 \<and> length (categoryDescription s) \<le> 300 \<longrightarrow>
            hd (emitted (addCategory create_categories) s) =
              Request POST ''create_categories/''
                [(''categories'', JArray [categoryValue (categoryName s) (categoryDescription s)])] \<and>
            errorMessage (addCategory create_categories s) = Raw (Some [])) \<and>
         (Request POST ''create_categories/''
            [(''categories'', JArray [categoryValue (categoryName s) (categoryDescription s)])]
            \<in> set (emitted (addCategory create_categories) s)
          \<longleftrightarrow> trim (categoryName s) \<noteq> [] \<and> trim (categoryDescription s) \<noteq> [] \<and>
              length (categoryName s) \<le> 50 \<and> length (categoryDescription s) \<le> 300) \<and>
         (length (categoryName u) > 50 \<or> length (categoryDescription u) > 300 \<longrightarrow>
            emitted (updateCategory update_category) u = [] \<and>
            errorMessage (updateCategory update_category u) \<in>
              {T ''homePage.modals.pleaseFillAllFields'',
               T ''homePage.modals.newCategoryModal.maxNameCharacters'',
               T ''homePage.modals.newCategoryModal.maxDescriptionCharacters''}) \<and>
         (trim (categoryName u) = [] \<or> trim (categoryDescription u) = [] \<longrightarrow>
            emitted (updateCategory update_category) u = [] \<and>
            errorMessage (updateCategory update_category u) = T ''homePage.modals.pleaseFillAllFields'') \<and>
         (trim (categoryName u) \<noteq> [] \<and> trim (categoryDescription u) \<noteq> [] \<and>
          length (categoryName u) > 50 \<longrightarrow>
            emitted (updateCategory update_category) u = [] \<and>
            errorMessage (updateCategory update_category u) =
              T ''homePage.modals.newCategoryModal.maxNameCharacters'') \<and>
         (trim (categoryName u) \<noteq> [] \<and> trim (categoryDescription u) \<noteq> [] \<and>
          length (categoryName u) \<le> 50 \<and> length (categoryDescription u) > 300 \<longrightarrow>
            emitted (updateCategory update_category) u = [] \<and>
            errorMessage (updateCategory update_category u) =
              T ''homePage.modals.newCategoryModal.maxDescriptionCharacters'') \<and>
         (trim (categoryName u) \<noteq> [] \<and> trim (categoryDescription u) \<noteq> [] \<and>
          length (categoryName u) \<le> 50 \<and> length (categoryDescription u) \<le> 300 \<longrightarrow>
            hd (emitted (updateCategory update_category) u) =
              Request PUT ''update_category/''
                [(''newCategoryName'', JString (categoryName u)),
                 (''description'', JString (categoryDescription u)),
                 (''categoryName'', optString (propName u))] \<and>
            errorMessage (updateCategory update_category u) \<in> {Raw (Some []), errorMessage u}) \<and>
         (Request PUT ''update_category/''
            [(''newCategoryName'', JString (categoryName u)),
             (''description'', JString (categoryDescription u)),
             (''categoryName'', optString (propName u))]
            \<in> set (emitted (updateCategory update_category) u)
          \<longleftrightarrow> trim (categoryName u) \<noteq> [] \<and> trim (categoryDescription u) \<noteq> [] \<and>
              length (categoryName u) \<le> 50 \<and> length (categoryDescription u) \<le> 300)"
proof -
  note ae = addCategory_effects [OF assms(1), of create_categories]
    and am = addCategory_error [OF assms(1), of create_categories]
    and ue = updateCategory_effects [OF assms(2), of update_category]
    and um = updateCategory_error [OF assms(2), of update_category]
  have a0: "length (categoryName s) > 50 \<or> length (categoryDescription s) > 300 \<longrightarrow>
      emitted (addCategory create_categories) s = [] \<and>
      errorMessage (addCategory create_categories s) \<in>
        {T ''homePage.modals.pleaseFillAllFields'',
         T ''homePage.modals.newCategoryModal.maxNameCharacters'',
         T ''homePage.modals.newCategoryModal.maxDescriptionCharacters''}"
    by (auto simp: ae am)
  have a1: "trim (categoryName s) = [] \<or> trim (categoryDescription s) = [] \<longrightarrow>
      emitted (addCategory create_categories) s = [] \<and>
      errorMessage (addCategory create_categories s) = T ''homePage.modals.pleaseFillAllFields''"
    by (auto simp: ae am)
  have a2: "trim (categoryName s) \<noteq> [] \<and> trim (categoryDescription s) \<noteq> [] \<and>
      length (categoryName s) > 50 \<longrightarrow>
      emitted (addCategory create_categories) s = [] \<and>
      errorMessage (addCategory create_categories s) =
        T ''homePage.modals.newCategoryModal.maxNameCharacters''"
    by (auto simp: ae am)
  have a3: "trim (categoryName s) \<noteq> [] \<and> trim (categoryDescription s) \<noteq> [] \<and>
      length (categoryName s) \<le> 50 \<and> length (categoryDescription s) > 300 \<longrightarrow>
      emitted (addCategory create_categories) s = [] \<and>
      errorMessage (addCategory create_categories s) =
        T ''homePage.modals.newCategoryModal.maxDescriptionCharacters''"
    by (auto simp: ae am)
  have a4: "trim (categoryName s) \<noteq> [] \<and> trim (categoryDescription s) \<noteq> [] \<and>
      length (categoryName s) \<le> 50 \<and> length (categoryDescription s) \<le> 300 \<longrightarrow>
      hd (emitted (addCategory create_categories) s) =
        Request POST ''create_categories/''
          [(''categories'', JArray [categoryValue (categoryName s) (categoryDescription s)])] \<and>
      errorMessage (addCategory create_categories s) = Raw (Some [])"
    by (auto simp: ae am)
  have a5: "Request POST ''create_categories/''
        [(''categories'', JArray [categoryValue (categoryName s) (categoryDescription s)])]
        \<in> set (emitted (addCategory create_categories) s)
      \<longleftrightarrow> trim (categoryName s) \<noteq> [] \<and> trim (categoryDescription s) \<noteq> [] \<and>
          length (categoryName s) \<le> 50 \<and> length (categoryDescription s) \<le> 300"
    by (auto simp: ae)
  have u0: "length (categoryName u) > 50 \<or> length (categoryDescription u) > 300 \<longrightarrow>
      emitted (updateCategory update_category) u = [] \<and>
      errorMessage (updateCategory update_category u) \<in>
        {T ''homePage.modals.pleaseFillAllFields'',
         T ''homePage.modals.newCategoryModal.maxNameCharacters'',
         T ''homePage.modals.newCategoryModal.maxDescriptionCharacters''}"
    by (auto simp: ue um)
  have u1: "trim (categoryName u) = [] \<or> trim (categoryDescription u) = [] \<longrightarrow>
      emitted (updateCategory update_category) u = [] \<and>
      errorMessage (updateCategory update_category u) = T ''homePage.modals.pleaseFillAllFields''"
    by (auto simp: ue um)
  have u2: "trim (categoryName u) \<noteq> [] \<and> trim (categoryDescription u) \<noteq> [] \<and>
      length (categoryName u) > 50 \<longrightarrow>
      emitted (updateCategory update_category) u = [] \<and>
      errorMessage (updateCategory update_category u) =
        T ''homePage.modals.newCategoryModal.maxNameCharacters''"
    by (auto simp: ue um)
  have u3: "trim (categoryName u) \<noteq> [] \<and> trim (categoryDescription u) \<noteq> [] \<and>
      length (categoryName u) \<le> 50 \<and> length (categoryDescription u) > 300 \<longrightarrow>
      emitted (updateCategory update_category) u = [] \<and>
      errorMessage (updateCategory update_category u) =
        T ''homePage.modals.newCategoryModal.maxDescriptionCharacters''"
    by (auto simp: ue um)
  have u4: "trim (categoryName u) \<noteq> [] \<and> trim (categoryDescription u) \<noteq> [] \<and>
      length (categoryName u) \<le> 50 \<and> length (categoryDescription u) \<le> 300 \<longrightarrow>
      hd (emitted (updateCategory update_category) u) =
        Request PUT ''update_category/''
          [(''newCategoryName'', JString (categoryName u)),
           (''description'', JString (categoryDescription u)),
           (''categoryName'', optString (propName u))] \<and>
      errorMessage (updateCategory update_category u) \<in> {Raw (Some []), errorMessage u}"
    by (auto simp: ue um)
  have u5: "Request PUT ''update_category/''
        [(''newCategoryName'', JString (categoryName u)),
         (''description'', JString (categoryDescription u)),
         (''categoryName'', optString (propName u))]
        \<in> set (emitted (updateCategory update_category) u)
      \<longleftrightarrow> trim (categoryName u) \<noteq> [] \<and> trim (categoryDescription u) \<noteq> [] \<and>
          length (categoryName u) \<le> 50 \<and> length (categoryDescription u) \<le> 300"
    by (auto simp: ue)
  from a0 a1 a2 a3 a4 a5 u0 u1 u2 u3 u4 u5 show ?thesis by (intro conjI)
qed

lemma code_units: "\<not> isWhiteSpace 0x4E2D" "\<not> isWhiteSpace 0x62" "\<not> isWhiteSpace 0x61"
  "isWhiteSpace 0x20" "isWhiteSpace 0x3000"
  by (simp_all add: isWhiteSpace_def)

theorem category_length_validation_witness:
  "isOpen (newCategoryForm (replicate 50 0x4E2D) (replicate 300 0x62)) \<and>
   isOpen ((openedFor [] \<lparr>category_name = utf16 ''Work'', category_description = utf16 ''Job''\<rparr>)
             \<lparr>categoryName := replicate 50 0x4E2D, categoryDescription := replicate 300 0x62\<rparr>) \<and>
   length (replicate 50 (0x4E2D :: 16 word)) = 50 \<and> length (replicate 300 (0x62 :: 16 word)) = 300 \<and>
   Request POST ''create_categories/''
     [(''categories'', JArray [categoryValue (replicate 50 0x4E2D) (replicate 300 0x62)])]
     \<in> set (emitted (addCategory accept_create)
          (newCategoryForm (replicate 50 0x4E2D) (replicate 300 0x62))) \<and>
   Request PUT ''update_category/''
     [(''newCategoryName'', JString (replicate 50 0x4E2D)),
      (''description'', JString (replicate 300 0x62)),
      (''categoryName'', JString (utf16 ''Work''))]
     \<in> set (emitted (updateCategory accept_update)
          ((openedFor [] \<lparr>category_name = utf16 ''Work'', category_description = utf16 ''Job''\<rparr>)
             \<lparr>categoryName := replicate 50 0x4E2D, categoryDescription := replicate 300 0x62\<rparr>)) \<and>
   isOpen (newCategoryForm (replicate 51 0x4E2D) (replicate 300 0x62)) \<and>
   emitted (addCategory accept_create) (newCategoryForm (replicate 51 0x4E2D) (replicate 300 0x62)) = [] \<and>
   errorMessage (addCategory accept_create (newCategoryForm (replicate 51 0x4E2D) (replicate 300 0x62)))
     = T ''homePage.modals.newCategoryModal.maxNameCharacters''"
proof -
  let ?s = "newCategoryForm (replicate 50 0x4E2D) (replicate 300 0x62)"
  let ?u = "(openedFor [] \<lparr>category_name = utf16 ''Work'', category_description = utf16 ''Job''\<rparr>)
             \<lparr>categoryName := replicate 50 0x4E2D, categoryDescription := replicate 300 0x62\<rparr>"
  let ?l = "newCategoryForm (replicate 51 0x4E2D) (replicate 300 0x62)"
  have os: "isOpen ?s" "isOpen ?l" by (simp_all add: newCategoryForm_def)
  have ou: "isOpen ?u" by (simp add: openedFor_def watchCategory_def)
  have fs: "categoryName ?s = replicate 50 0x4E2D" "categoryDescription ?s = replicate 300 0x62"
    "categoryName ?l = replicate 51 0x4E2D" "categoryDescription ?l = replicate 300 0x62"
    by (simp_all add: newCategoryForm_def)
  have fu: "categoryName ?u = replicate 50 0x4E2D" "categoryDescription ?u = replicate 300 0x62"
    "propName ?u = Some (utf16 ''Work'')"
    by (simp_all add: openedFor_def watchCategory_def propName_def)
  have t: "trim (replicate 50 (0x4E2D :: 16 word)) \<noteq> []" "trim (replicate 51 (0x4E2D :: 16 word)) \<noteq> []"
    "trim (replicate 300 (0x62 :: 16 word)) \<noteq> []"
    by (simp_all add: trim_letters code_units)
  have at_bounds: "Request POST ''create_categories/''
       [(''categories'', JArray [categoryValue (replicate 50 0x4E2D) (replicate 300 0x62)])]
       \<in> set (emitted (addCategory accept_create) ?s) \<and>
     Request PUT ''update_category/''
       [(''newCategoryName'', JString (replicate 50 0x4E2D)),
        (''description'', JString (replicate 300 0x62)),
        (''categoryName'', JString (utf16 ''Work''))]
       \<in> set (emitted (updateCategory accept_update) ?u)"
    using category_length_validation [OF os(1) ou, of accept_create accept_update] t
    by (simp add: fs fu optString_def)
  have too_long: "emitted (addCategory accept_create) ?l = [] \<and>
     errorMessage (addCategory accept_create ?l) = T ''homePage.modals.newCategoryModal.maxNameCharacters''"
    using category_length_validation [OF os(2) ou, of accept_create accept_update] t
    by (simp add: fs)
  from os ou at_bounds too_long show ?thesis by simp
qed

text \<open>
  As stated, for every name and description, claim C7 fails. In the open creation modal
  a name of fifty spaces has length 50 and a description of three hundred letters has
  length 300, and they are refused with the message to fill all fields, nothing being
  sent. In the closed update modal, whose handler still runs on the Enter key, a name of
  fifty-one letters is longer than 50 and no validation error is raised: the handler
  leaves the state as it is.
\<close>

theorem category_length_counterexample:
  "isOpen (newCategoryForm (replicate 50 0x20) (replicate 300 0x64)) \<and>
   length (categoryName (newCategoryForm (replicate 50 0x20) (replicate 300 0x64))) = 50 \<and>
   length (categoryDescription (newCategoryForm (replicate 50 0x20) (replicate 300 0x64))) = 300 \<and>
   emitted (addCategory accept_create)
     (newCategoryForm (replicate 50 0x20) (replicate 300 0x64)) = [] \<and>
   errorMessage (addCategory accept_create
     (newCategoryForm (replicate 50 0x20) (replicate 300 0x64))) =
     T ''homePage.modals.pleaseFillAllFields'' \<and>
   length (categoryName
     ((openedFor [] \<lparr>category_name = utf16 ''Work'', category_description = utf16 ''Job''\<rparr>)
        \<lparr>isOpen := False, categoryName := replicate 51 0x61\<rparr>)) = 51 \<and>
   updateCategory accept_update
     ((openedFor [] \<lparr>category_name = utf16 ''Work'', category_description = utf16 ''Job''\<rparr>)
        \<lparr>isOpen := False, categoryName := replicate 51 0x61\<rparr>) =
     (openedFor [] \<lparr>category_name = utf16 ''Work'', category_description = utf16 ''Job''\<rparr>)
        \<lparr>isOpen := False, categoryName := replicate 51 0x61\<rparr> \<and>
   errorMessage
     ((openedFor [] \<lparr>category_name = utf16 ''Work'', category_description = utf16 ''Job''\<rparr>)
        \<lparr>isOpen := False, categoryName := replicate 51 0x61\<rparr>) = Raw (Some [])"
proof -
  let ?s = "newCategoryForm (replicate 50 0x20) (replicate 300 0x64)"
  have os: "isOpen ?s" by (simp add: newCategoryForm_def)
  have fs: "categoryName ?s = replicate 50 0x20" "categoryDescription ?s = replicate 300 0x64"
    by (simp_all add: newCategoryForm_def)
  have blank: "emitted (addCategory accept_create) ?s = [] \<and>
      errorMessage (addCategory accept_create ?s) = T ''homePage.modals.pleaseFillAllFields''"
    by (simp add: addCategory_effects [OF os] addCategory_error [OF os] fs trim_blank code_units)
  have closed: "updateCategory accept_update
     ((openedFor [] \<lparr>category_name = utf16 ''Work'', category_description = utf16 ''Job''\<rparr>)
        \<lparr>isOpen := False, categoryName := replicate 51 0x61\<rparr>) =
     (openedFor [] \<lparr>category_name = utf16 ''Work'', category_description = utf16 ''Job''\<rparr>)
        \<lparr>isOpen := False, categoryName := replicate 51 0x61\<rparr>"
    by (rule closed_modal_ignores) simp
  have msg: "errorMessage
     ((openedFor [] \<lparr>category_name = utf16 ''Work'', category_description = utf16 ''Job''\<rparr>)
        \<lparr>isOpen := False, categoryName := replicate 51 0x61\<rparr>) = Raw (Some [])"
    by (simp add: openedFor_def watchCategory_def)
  from os blank closed msg show ?thesis by (simp add: fs)
qed


subsection \<open>Deleting a category\<close>

text \<open>
  What \<open>openCategoryDeletionModal\<close> does once the dependencies have been counted: with no
  rule and no email it deletes at once, otherwise it opens the deletion modal with the
  two counts and deletes nothing. The counts are those of the category the modal was
  opened for; the name that \<open>deleteCategory\<close> sends is the content of the name field.
  While the field still holds the name of that category (\<open>deletion_gate\<close>), the category
  is deleted without confirmation if and only if both of its counts are zero.
\<close>

lemma openCategoryDeletionModal_effects:
  assumes "isOpen s" "success (get_dependencies (propName s))"
    "data (get_dependencies (propName s)) = Some d"
  shows "emitted (openCategoryDeletionModal DEFAULT_CATEGORY get_dependencies delete_category) s =
     Request POST ''get_dependencies/'' [(''categoryName'', optString (propName s))] #
     (if nbRules d = 0 \<and> nbEmails d = 0 then
        Request DELETE ''delete_category/'' [(''categoryName'', JString (categoryName s))] #
        Emit ''close'' [] #
        (if success (delete_category (categoryName s)) then
           Emit ''selectCategory'' [categoryValue DEFAULT_CATEGORY []] #
           (if displayPopup s then
              [DisplayPopup PopupSuccess (T ''constants.popUpConstants.successMessages.success'')
                 (T ''constants.popUpConstants.successMessages.deleteCategorySuccess'')]
            else [])
         else
           (if displayPopup s then
              [DisplayPopup PopupError (T ''constants.popUpConstants.errorMessages.deleteCategoryError'')
                 (Raw (error (delete_category (categoryName s))))]
            else []))
      else [Emit ''close'' []])"
  using assms
  by (simp add: emitted_def openCategoryDeletionModal_def Let_def closeModal_def resetForm_def
      deleteCategory_answer_def deleteCategory_request_def perform_def popup_def propName_def)

lemma openCategoryDeletionModal_confirmation:
  assumes "isOpen s" "success (get_dependencies (propName s))"
    "data (get_dependencies (propName s)) = Some d" "\<not> (nbRules d = 0 \<and> nbEmails d = 0)"
  shows "isCategoryDeletionModalOpen
           (openCategoryDeletionModal DEFAULT_CATEGORY get_dependencies delete_category s) \<and>
         nbRulesLinked (openCategoryDeletionModal DEFAULT_CATEGORY get_dependencies delete_category s)
           = nbRules d \<and>
         nbEmailsLinked (openCategoryDeletionModal DEFAULT_CATEGORY get_dependencies delete_category s)
           = nbEmails d \<and>
         categories (openCategoryDeletionModal DEFAULT_CATEGORY get_dependencies delete_category s)
           = categories s"
  using assms
  by (auto simp: openCategoryDeletionModal_def Let_def closeModal_def resetForm_def perform_def
      propName_def)

lemma deletion_gate:
  assumes "isOpen s" and "propName s = Some n" and "categoryName s = n"
    and "success (get_dependencies (Some n))" and "data (get_dependencies (Some n)) = Some d"
  shows "Request DELETE ''delete_category/'' [(''categoryName'', JString n)]
           \<in> set (emitted (openCategoryDeletionModal DEFAULT_CATEGORY get_dependencies delete_category) s)
         \<longleftrightarrow> nbRules d = 0 \<and> nbEmails d = 0"
  using assms openCategoryDeletionModal_effects
    [where s = s and get_dependencies = get_dependencies and d = d
       and DEFAULT_CATEGORY = DEFAULT_CATEGORY and delete_category = delete_category]
  by auto

lemma deleteCategory_effects:
  "emitted (deleteCategory DEFAULT_CATEGORY delete_category) s =
     Request DELETE ''delete_category/'' [(''categoryName'', JString (categoryName s))] #
     (if success (delete_category (categoryName s)) then
        Emit ''selectCategory'' [categoryValue DEFAULT_CATEGORY []] #
        (if displayPopup s then
           [DisplayPopup PopupSuccess (T ''constants.popUpConstants.successMessages.success'')
              (T ''constants.popUpConstants.successMessages.deleteCategorySuccess'')]
         else [])
      else
        (if displayPopup s then
           [DisplayPopup PopupError (T ''constants.popUpConstants.errorMessages.deleteCategoryError'')
              (Raw (error (delete_category (categoryName s))))]
         else []))"
  by (simp add: emitted_def deleteCategory_def deleteCategory_answer_def deleteCategory_request_def
      Let_def perform_def popup_def)

lemma pencil_not_default:
  "OpenUpdateModal c \<in> set (clicks DEFAULT_CATEGORY cs) \<longleftrightarrow>
     c \<in> set cs \<and> category_name c \<noteq> DEFAULT_CATEGORY"
  by (auto simp: clicks_def tabClicks_def split: if_splits)

lemma openedFor_fields:
  "isOpen (openedFor cs c)" "propName (openedFor cs c) = Some (category_name c)"
  "categoryName (openedFor cs c) = category_name c"
  "categoryDescription (openedFor cs c) = category_description c"
  "categories (openedFor cs c) = cs" "effects (openedFor cs c) = []"
  "displayPopup (openedFor cs c)"
  by (simp_all add: openedFor_def watchCategory_def propName_def)

text \<open>
  Claim C2. The claim says that a category is deleted without confirmation only when it
  has no rule and no email. The code at an input where this fails: the modal is opened
  for \<open>Newsletters\<close>, which has none, and the user has typed \<open>Work\<close> into the name field.
  The dependencies asked for are those of \<open>Newsletters\<close>; the category deleted, with no
  deletion modal opened, is \<open>Work\<close>, which has three rules and twelve emails.
\<close>

theorem delete_without_confirmation:
  "data (dependencies_example (Some (utf16 ''Work''))) = Some \<lparr>nbRules = 3, nbEmails = 12\<rparr> \<and>
   emitted (openCategoryDeletionModal (utf16 ''Others'') dependencies_example accept_delete)
     ((openedFor
         [\<lparr>category_name = utf16 ''Others'', category_description = []\<rparr>,
          \<lparr>category_name = utf16 ''Newsletters'', category_description = utf16 ''News''\<rparr>,
          \<lparr>category_name = utf16 ''Work'', category_description = utf16 ''Job''\<rparr>]
         \<lparr>category_name = utf16 ''Newsletters'', category_description = utf16 ''News''\<rparr>)
        \<lparr>categoryName := utf16 ''Work''\<rparr>) =
     [Request POST ''get_dependencies/'' [(''categoryName'', JString (utf16 ''Newsletters''))],
      Request DELETE ''delete_category/'' [(''categoryName'', JString (utf16 ''Work''))],
      Emit ''close'' [],
      Emit ''selectCategory'' [categoryValue (utf16 ''Others'') []],
      DisplayPopup PopupSuccess (T ''constants.popUpConstants.successMessages.success'')
        (T ''constants.popUpConstants.successMessages.deleteCategorySuccess'')] \<and>
   \<not> isCategoryDeletionModalOpen
     (openCategoryDeletionModal (utf16 ''Others'') dependencies_example accept_delete
        ((openedFor
            [\<lparr>category_name = utf16 ''Others'', category_description = []\<rparr>,
             \<lparr>category_name = utf16 ''Newsletters'', category_description = utf16 ''News''\<rparr>,
             \<lparr>category_name = utf16 ''Work'', category_description = utf16 ''Job''\<rparr>]
            \<lparr>category_name = utf16 ''Newsletters'', category_description = utf16 ''News''\<rparr>)
           \<lparr>categoryName := utf16 ''Work''\<rparr>)) \<and>
   categories
     (openCategoryDeletionModal (utf16 ''Others'') dependencies_example accept_delete
        ((openedFor
            [\<lparr>category_name = utf16 ''Others'', category_description = []\<rparr>,
             \<lparr>category_name = utf16 ''Newsletters'', category_description = utf16 ''News''\<rparr>,
             \<lparr>category_name = utf16 ''Work'', category_description = utf16 ''Job''\<rparr>]
            \<lparr>category_name = utf16 ''Newsletters'', category_description = utf16 ''News''\<rparr>)
           \<lparr>categoryName := utf16 ''Work''\<rparr>)) =
     [\<lparr>category_name = utf16 ''Others'', category_description = []\<rparr>,
      \<lparr>category_name = utf16 ''Newsletters'', category_description = utf16 ''News''\<rparr>]"
  by (simp add: emitted_def openCategoryDeletionModal_def Let_def closeModal_def resetForm_def
      deleteCategory_answer_def deleteCategory_request_def perform_def popup_def propName_def
      openedFor_def watchCategory_def dependencies_example_def accept_delete_def accepted_def
      optString_def utf16_def)

lemma rename_names_the_opened_category:
  assumes "OpenUpdateModal c \<in> set (clicks DEFAULT_CATEGORY cs)"
    and "category s = Some c" and "isOpen s"
  shows "\<forall>m path body. Request m path body \<in> set (emitted (updateCategory update_category) s) \<longrightarrow>
           path = ''update_category/'' \<and>
           map_of body ''categoryName'' = Some (JString (category_name c)) \<and>
           category_name c \<noteq> DEFAULT_CATEGORY"
  using assms
  by (auto simp: updateCategory_effects pencil_not_default propName_def optString_def split: if_splits)

text \<open>
  Claim C4. The claim says that no rename and no delete can be issued against the
  Default Category. The tabs offer the pencil for every category but the default one
  (\<open>pencil_not_default\<close>), and a rename names the category the modal was opened for
  (\<open>rename_names_the_opened_category\<close>). The delete names the content of the name field:
  with \<open>DEFAULT_CATEGORY\<close> being \<open>Others\<close>, the modal opened for \<open>Newsletters\<close> and the
  user having typed \<open>Others\<close> into the name field, the request deletes \<open>Others\<close> and the
  default category leaves the list.
\<close>

theorem delete_default_category:
  "OpenUpdateModal \<lparr>category_name = utf16 ''Others'', category_description = []\<rparr>
     \<notin> set (clicks (utf16 ''Others'')
         [\<lparr>category_name = utf16 ''Others'', category_description = []\<rparr>,
          \<lparr>category_name = utf16 ''Newsletters'', category_description = utf16 ''News''\<rparr>]) \<and>
   OpenUpdateModal \<lparr>category_name = utf16 ''Newsletters'', category_description = utf16 ''News''\<rparr>
     \<in> set (clicks (utf16 ''Others'')
         [\<lparr>category_name = utf16 ''Others'', category_description = []\<rparr>,
          \<lparr>category_name = utf16 ''Newsletters'', category_description = utf16 ''News''\<rparr>]) \<and>
   emitted (openCategoryDeletionModal (utf16 ''Others'') dependencies_example accept_delete)
     ((openedFor
         [\<lparr>category_name = utf16 ''Others'', category_description = []\<rparr>,
          \<lparr>category_name = utf16 ''Newsletters'', category_description = utf16 ''News''\<rparr>]
         \<lparr>category_name = utf16 ''Newsletters'', category_description = utf16 ''News''\<rparr>)
        \<lparr>categoryName := utf16 ''Others''\<rparr>) =
     [Request POST ''get_dependencies/'' [(''categoryName'', JString (utf16 ''Newsletters''))],
      Request DELETE ''delete_category/'' [(''categoryName'', JString (utf16 ''Others''))],
      Emit ''close'' [],
      Emit ''selectCategory'' [categoryValue (utf16 ''Others'') []],
      DisplayPopup PopupSuccess (T ''constants.popUpConstants.successMessages.success'')
        (T ''constants.popUpConstants.successMessages.deleteCategorySuccess'')] \<and>
   categories
     (openCategoryDeletionModal (utf16 ''Others'') dependencies_example accept_delete
        ((openedFor
            [\<lparr>category_name = utf16 ''Others'', category_description = []\<rparr>,
             \<lparr>category_name = utf16 ''Newsletters'', category_description = utf16 ''News''\<rparr>]
            \<lparr>category_name = utf16 ''Newsletters'', category_description = utf16 ''News''\<rparr>)
           \<lparr>categoryName := utf16 ''Others''\<rparr>)) =
     [\<lparr>category_name = utf16 ''Newsletters'', category_description = utf16 ''News''\<rparr>]"
  by (simp add: emitted_def openCategoryDeletionModal_def Let_def closeModal_def resetForm_def
      deleteCategory_answer_def deleteCategory_request_def perform_def popup_def propName_def
      openedFor_def watchCategory_def dependencies_example_def accept_delete_def accepted_def
      optString_def clicks_def tabClicks_def utf16_def)

end
